theory Spec2Isabelle
  imports
    Main
    "HOL-Library.Word"
    "HOL-Library.Sublist"
    "HOL-Library.Char_ord"
    "HOL-Library.List_Lexorder"
begin

section \<open>JavaScript strings, values and errors\<close>

text \<open>
  The program is \<^verbatim>\<open>reference/firmware-update-reference.js\<close>. A JavaScript string is a
  sequence of 16-bit code units; the order of \<^typ>\<open>16 word list\<close> is the lexicographic
  order on code units, by which JavaScript's default \<^verbatim>\<open>sort()\<close> compares strings. The
  string literals of the program are ASCII and are written with \<open>js\<close>. A Buffer is a
  sequence of bytes. The text of an error message, of a response body and of the constant
  names of methods and headers is never taken apart by the program and is kept as
  \<^typ>\<open>string\<close>.
\<close>

type_synonym code_unit = "16 word"

type_synonym jsstring = "code_unit list"

type_synonym bytes = string

definition js :: "string \<Rightarrow> jsstring" where
  "js s = map of_char s"

datatype js_error =
    Error string
  | TypeError string
  | SyntaxError string
  | SystemError string

fun message :: "js_error \<Rightarrow> string" where
  "message (Error m) = m"
| "message (TypeError m) = m"
| "message (SyntaxError m) = m"
| "message (SystemError m) = m"

text \<open>\<^verbatim>\<open>s.startsWith(p)\<close>, \<^verbatim>\<open>s.endsWith(p)\<close> and \<^verbatim>\<open>s.includes(p)\<close>.\<close>

definition startsWith :: "'a list \<Rightarrow> 'a list \<Rightarrow> bool" where
  "startsWith s p = prefix p s"

definition endsWith :: "'a list \<Rightarrow> 'a list \<Rightarrow> bool" where
  "endsWith s p = suffix p s"

definition str_includes :: "'a list \<Rightarrow> 'a list \<Rightarrow> bool" where
  "str_includes s p = sublist p s"

text \<open>
  \<^verbatim>\<open>s.toLowerCase()\<close>, as far as the program can tell. The letters A to Z are mapped to
  a to z, and U+212A KELVIN SIGN is mapped to k. JavaScript lowers other letters too
  (E with an acute accent, for one), and these are kept as they are here: none of them
  becomes one of the units k, l, v, r and none is removed, so the only use the program
  makes of the result, the test \<^verbatim>\<open>.includes('klvr')\<close>, comes out the same.
\<close>

definition lower_unit :: "code_unit \<Rightarrow> code_unit" where
  "lower_unit c =
     (case map_of (zip (js ''ABCDEFGHIJKLMNOPQRSTUVWXYZ'' @ [0x212A])
                       (js ''abcdefghijklmnopqrstuvwxyz'' @ js ''k'')) c of
        Some d \<Rightarrow> d
      | None \<Rightarrow> c)"

definition toLowerCase :: "jsstring \<Rightarrow> jsstring" where
  "toLowerCase s = map lower_unit s"

text \<open>The decimal rendering of a number inside a template literal.\<close>

definition digit_char :: "nat \<Rightarrow> char" where
  "digit_char d = ''0123456789'' ! d"

function string_of_nat :: "nat \<Rightarrow> string" where
  "string_of_nat n =
     (if n < 10 then [digit_char n] else string_of_nat (n div 10) @ [digit_char (n mod 10)])"
  by pat_completeness auto
termination
  by (relation "measure id") auto

declare string_of_nat.simps [simp del]

section \<open>The firmware locator\<close>

text \<open>
  The file system as the locator sees it: the outcome of \<^verbatim>\<open>fs.readdir\<close> on a
  directory and of \<^verbatim>\<open>fs.access\<close> on a path (\<^term>\<open>None\<close> when the file is
  accessible, the error otherwise).
\<close>

record filesystem =
  readdir :: "jsstring \<Rightarrow> js_error + jsstring list"
  access :: "jsstring \<Rightarrow> js_error option"

record firmware_files =
  main :: jsstring
  rear :: jsstring

text \<open>
  \<^verbatim>\<open>path.join(dir, name)\<close> for a normalised directory and a plain entry name, with the
  POSIX separator.
\<close>

definition path_join :: "jsstring \<Rightarrow> jsstring \<Rightarrow> jsstring" where
  "path_join dir name = dir @ js ''/'' @ name"

text \<open>
  The body of the \<^verbatim>\<open>try\<close> block of \<^verbatim>\<open>findLatestFirmwareFiles\<close>. The parameter
  \<open>firmwareDir\<close> is the value of \<^verbatim>\<open>path.join(__dirname, '..', 'firmware')\<close>.
\<close>

definition findLatestFirmwareFiles_try ::
  "filesystem \<Rightarrow> jsstring \<Rightarrow> js_error + firmware_files" where
  "findLatestFirmwareFiles_try fs firmwareDir =
     (case readdir fs firmwareDir of
        Inl e \<Rightarrow> Inl e
      | Inr files \<Rightarrow>
          let mainFiles =
                rev (sort (filter (\<lambda>f. startsWith f (js ''main_'') \<and>
                                       endsWith f (js ''.signed.bin'')) files));
              rearFiles =
                rev (sort (filter (\<lambda>f. startsWith f (js ''rear_'') \<and>
                                       endsWith f (js ''.signed.bin'')) files))
          in
            if length mainFiles = 0 then
              Inl (Error ''No main firmware files found in firmware/ directory'')
            else if length rearFiles = 0 then
              Inl (Error ''No rear firmware files found in firmware/ directory'')
            else
              let mainPath = path_join firmwareDir (mainFiles ! 0);
                  rearPath = path_join firmwareDir (rearFiles ! 0)
              in
                (case access fs mainPath of
                   Some e \<Rightarrow> Inl e
                 | None \<Rightarrow>
                     (case access fs rearPath of
                        Some e \<Rightarrow> Inl e
                      | None \<Rightarrow> Inr \<lparr>main = mainPath, rear = rearPath\<rparr>)))"

text \<open>The \<^verbatim>\<open>catch\<close> clause wraps the message of whatever the block threw.\<close>

definition findLatestFirmwareFiles :: "filesystem \<Rightarrow> jsstring \<Rightarrow> js_error + firmware_files" where
  "findLatestFirmwareFiles fs firmwareDir =
     (case findLatestFirmwareFiles_try fs firmwareDir of
        Inl error \<Rightarrow> Inl (Error (''Failed to find firmware files: '' @ message error))
      | Inr found \<Rightarrow> Inr found)"

section \<open>Values read from a JSON body\<close>

text \<open>
  The values \<^verbatim>\<open>JSON.parse\<close> can return, and \<^verbatim>\<open>undefined\<close> for a missing property.
  The program only tests a number for being zero, so numbers are integers here.
\<close>

datatype jsval =
    Undefined
  | Null
  | Bool bool
  | Num int
  | Str jsstring
  | Arr "jsval list"
  | Obj "(jsstring \<times> jsval) list"

fun truthy :: "jsval \<Rightarrow> bool" where
  "truthy Undefined = False"
| "truthy Null = False"
| "truthy (Bool b) = b"
| "truthy (Num n) = (n \<noteq> 0)"
| "truthy (Str s) = (s \<noteq> [])"
| "truthy (Arr xs) = True"
| "truthy (Obj kvs) = True"

text \<open>
  \<^verbatim>\<open>v.k\<close> for the property names the program reads (\<^verbatim>\<open>deviceName\<close>, \<^verbatim>\<open>name\<close>,
  \<^verbatim>\<open>firmwareVersion\<close>, \<^verbatim>\<open>serialNumber\<close>, \<^verbatim>\<open>ip\<close>, \<^verbatim>\<open>macAddress\<close>), none of
  which a prototype provides: reading a property of \<^verbatim>\<open>null\<close> or \<^verbatim>\<open>undefined\<close> throws,
  an object gives the value stored under the key, any other value gives \<^verbatim>\<open>undefined\<close>.
\<close>

fun get_prop :: "jsval \<Rightarrow> string \<Rightarrow> js_error + jsval" where
  "get_prop Undefined k = Inl (TypeError ''Cannot read properties of undefined'')"
| "get_prop Null k = Inl (TypeError ''Cannot read properties of null'')"
| "get_prop (Obj kvs) k = Inr (case map_of kvs (js k) of Some v \<Rightarrow> v | None \<Rightarrow> Undefined)"
| "get_prop (Bool b) k = Inr Undefined"
| "get_prop (Num n) k = Inr Undefined"
| "get_prop (Str s) k = Inr Undefined"
| "get_prop (Arr xs) k = Inr Undefined"

text \<open>\<^verbatim>\<open>v?.k\<close>: \<^verbatim>\<open>undefined\<close> when \<open>v\<close> is \<^verbatim>\<open>null\<close> or \<^verbatim>\<open>undefined\<close>.\<close>

fun opt_chain :: "jsval \<Rightarrow> string \<Rightarrow> js_error + jsval" where
  "opt_chain Undefined k = Inr Undefined"
| "opt_chain Null k = Inr Undefined"
| "opt_chain v k = get_prop v k"

text \<open>
  \<^verbatim>\<open>v.toLowerCase()\<close>: only a string has the method; on any other value that is not
  \<^verbatim>\<open>null\<close> or \<^verbatim>\<open>undefined\<close> the call throws, since a value from JSON is never a
  function.
\<close>

fun call_toLowerCase :: "jsval \<Rightarrow> js_error + jsstring" where
  "call_toLowerCase (Str s) = Inr (toLowerCase s)"
| "call_toLowerCase Undefined = Inl (TypeError ''Cannot read properties of undefined'')"
| "call_toLowerCase Null = Inl (TypeError ''Cannot read properties of null'')"
| "call_toLowerCase v = Inl (TypeError ''deviceName.toLowerCase is not a function'')"

text \<open>
  Whether the conversion of a value to a string inside a template literal throws: an
  object does when it has a key \<^verbatim>\<open>toString\<close> of its own (the value under it is not a
  function, and \<^verbatim>\<open>valueOf\<close> does not give a primitive), an array does when the
  conversion of one of its elements does.
\<close>

fun ToString_throws :: "jsval \<Rightarrow> bool" where
  "ToString_throws (Obj kvs) = (map_of kvs (js ''toString'') \<noteq> None)"
| "ToString_throws (Arr xs) = list_ex ToString_throws xs"
| "ToString_throws Undefined = False"
| "ToString_throws Null = False"
| "ToString_throws (Bool b) = False"
| "ToString_throws (Num n) = False"
| "ToString_throws (Str s) = False"

text \<open>Sequencing of computations that may throw.\<close>

definition and_then :: "js_error + 'a \<Rightarrow> ('a \<Rightarrow> js_error + 'b) \<Rightarrow> js_error + 'b" where
  "and_then r k = (case r of Inl e \<Rightarrow> Inl e | Inr a \<Rightarrow> k a)"

text \<open>
  The template literal \<^verbatim>\<open>`... ${info.firmwareVersion}`\<close> in a log
  line; only whether it throws matters here.
\<close>

definition log_firmwareVersion :: "jsval \<Rightarrow> js_error + unit" where
  "log_firmwareVersion info =
     and_then (get_prop info ''firmwareVersion'') (\<lambda>v.
       if ToString_throws v then Inl (TypeError ''Cannot convert object to primitive value'')
       else Inr ())"

section \<open>Configuration, requests and the device\<close>

definition DEFAULT_PORT :: nat where "DEFAULT_PORT = 8000"
definition FIRMWARE_PROCESSING_WAIT :: nat where "FIRMWARE_PROCESSING_WAIT = 7000"
definition SEND_REBOOT_WAIT :: nat where "SEND_REBOOT_WAIT = 1500"
definition MAIN_BOARD_REBOOT_WAIT :: nat where "MAIN_BOARD_REBOOT_WAIT = 7000"
definition REAR_BOARD_REBOOT_WAIT :: nat where "REAR_BOARD_REBOOT_WAIT = 20000"
definition FIRMWARE_CHARGER :: jsstring where
  "FIRMWARE_CHARGER = js ''/api/v2/device/firmware_charger''"
definition FIRMWARE_REAR :: jsstring where "FIRMWARE_REAR = js ''/api/v2/device/firmware_rear''"
definition REBOOT :: jsstring where "REBOOT = js ''/api/v2/device/reboot''"
definition INFO :: jsstring where "INFO = js ''/api/v2/device/info''"

text \<open>What is written to a request: nothing, a Buffer, or a string.\<close>

datatype payload = NoBody | Buffer bytes | Text jsstring

text \<open>
  The \<^verbatim>\<open>options\<close> of an \<^verbatim>\<open>http.request\<close> together with what is written to it
  (\<open>http_method\<close> is the option \<^verbatim>\<open>method\<close>).
\<close>

record request =
  hostname :: jsstring
  port :: nat
  path :: jsstring
  http_method :: string
  headers :: "(string \<times> nat) list"
  timeout :: "nat option"
  written :: payload

record response =
  statusCode :: nat
  statusMessage :: string
  body :: string

text \<open>
  \<^verbatim>\<open>http.request\<close> throws a \<^verbatim>\<open>TypeError\<close>, before anything is sent, when the path
  has a code unit outside 0x21 to 0xFF, and when the host name, which becomes the
  \<^verbatim>\<open>Host\<close> header, has a code unit that is not allowed in a header value (allowed are
  the tab, 0x20 to 0x7E and 0x80 to 0xFF). The path is checked first.
\<close>

definition invalid_path_unit :: "code_unit \<Rightarrow> bool" where
  "invalid_path_unit c = (c < 0x21 \<or> 0xFF < c)"

definition invalid_header_unit :: "code_unit \<Rightarrow> bool" where
  "invalid_header_unit c = (c \<noteq> 0x09 \<and> (c < 0x20 \<or> c = 0x7F \<or> 0xFF < c))"

definition accepted_host :: "jsstring \<Rightarrow> bool" where
  "accepted_host h = (\<not> list_ex invalid_header_unit h)"

definition request_error :: "request \<Rightarrow> js_error option" where
  \<open>request_error req =
     (if list_ex invalid_path_unit (path req)
        then Some (TypeError ''Request path contains unescaped characters'')
      else if \<not> accepted_host (hostname req)
        then Some (TypeError ''Invalid character in header content ["Host"]'')
      else None)\<close>

text \<open>
  What a request that was sent meets: an \<^verbatim>\<open>'error'\<close> event; a socket that stays idle
  (past the request's timeout when it has one); a response that starts and whose
  connection closes before its \<^verbatim>\<open>'end'\<close>, which raises no event that the program listens
  to; or a complete response.
\<close>

datatype net_outcome = NetError js_error | NoResponse | Truncated | Resp response

text \<open>
  What the program does to the device, in order: the requests it issues and the
  \<^verbatim>\<open>setTimeout\<close> delays it waits for, in milliseconds.
\<close>

datatype event = Call request | Wait nat

text \<open>
  The world outside the program. The device answers a request as a function of everything
  the program did before; \<^verbatim>\<open>JSON.parse\<close> gives \<^term>\<open>None\<close> where it throws;
  \<^verbatim>\<open>fs.readFile\<close> gives the bytes of a file or an error.
\<close>

record env =
  device :: "event list \<Rightarrow> request \<Rightarrow> net_outcome"
  json_parse :: "string \<Rightarrow> jsval option"
  readFile :: "jsstring \<Rightarrow> js_error + bytes"

text \<open>
  \<^verbatim>\<open>http.request(options, ...)\<close> followed by the writes and \<^verbatim>\<open>req.end()\<close>: either the
  call throws and nothing is issued, or the request is issued and meets its outcome.
\<close>

datatype fate = Threw js_error | Met net_outcome

definition http_request :: "env \<Rightarrow> request \<Rightarrow> event list \<Rightarrow> fate \<times> event list" where
  "http_request E req t =
     (case request_error req of
        Some e \<Rightarrow> (Threw e, t)
      | None \<Rightarrow> (Met (device E t req), t @ [Call req]))"

datatype 'a promise = Resolved 'a | Rejected js_error | Pending

type_synonym 'a action = "event list \<Rightarrow> 'a promise \<times> event list"

section \<open>The device prober\<close>

record identity =
  ip :: jsstring
  deviceName :: jsval
  firmwareVersion :: jsval
  serialNumber :: jsval

definition probe_request :: "jsstring \<Rightarrow> request" where
  "probe_request ipaddr =
     \<lparr>hostname = ipaddr, port = DEFAULT_PORT, path = INFO, http_method = ''GET'', headers = [],
      timeout = Some 3000, written = NoBody\<rparr>"

text \<open>
  The \<^verbatim>\<open>try\<close> block of the \<^verbatim>\<open>'end'\<close> handler of \<^verbatim>\<open>testDeviceConnection\<close>, on
  the body received: the value passed to \<^verbatim>\<open>resolve\<close>, or what the block throws.
\<close>

definition testDeviceConnection_try ::
  "(string \<Rightarrow> jsval option) \<Rightarrow> jsstring \<Rightarrow> string \<Rightarrow> js_error + identity option" where
  "testDeviceConnection_try parse ipaddr received =
     (case parse received of
        None \<Rightarrow> Inl (SyntaxError ''Unexpected token in JSON'')
      | Some info \<Rightarrow>
          and_then (get_prop info ''deviceName'') (\<lambda>dn.
          and_then (if truthy dn then Inr dn else get_prop info ''name'') (\<lambda>deviceName.
            if \<not> truthy deviceName then Inr None
            else
              and_then (call_toLowerCase deviceName) (\<lambda>lowered.
                if str_includes lowered (js ''klvr'') then
                  and_then (get_prop info ''firmwareVersion'') (\<lambda>version.
                  and_then (get_prop info ''serialNumber'') (\<lambda>sn.
                  and_then (if truthy sn then Inr sn
                            else and_then (get_prop info ''ip'') (\<lambda>i. opt_chain i ''macAddress''))
                    (\<lambda>sn_or_mac.
                      Inr (Some \<lparr>ip = ipaddr, deviceName = deviceName, firmwareVersion = version,
                                 serialNumber =
                                   (if truthy sn_or_mac then sn_or_mac
                                    else Str (js ''Unknown''))\<rparr>))))
                else Inr None))))"

text \<open>
  \<^verbatim>\<open>testDeviceConnection\<close>: the \<^verbatim>\<open>'error'\<close> handler, the \<^verbatim>\<open>'timeout'\<close> handler (the
  request has a timeout of 3000 ms) and the \<^verbatim>\<open>catch\<close> clause all call
  \<^verbatim>\<open>resolve(null)\<close>. When \<^verbatim>\<open>http.request\<close> throws inside the executor the promise
  is rejected; when the response never reaches its \<^verbatim>\<open>'end'\<close> no handler runs.
\<close>

definition testDeviceConnection :: "env \<Rightarrow> jsstring \<Rightarrow> identity option action" where
  "testDeviceConnection E ipaddr t =
     (let req = probe_request ipaddr in
      case http_request E req t of
        (Threw error, t') \<Rightarrow> (Rejected error, t')
      | (Met outcome, t') \<Rightarrow>
          (case outcome of
             NetError e \<Rightarrow> Resolved None
           | NoResponse \<Rightarrow>
               (case timeout req of Some ms \<Rightarrow> Resolved None | None \<Rightarrow> Pending)
           | Truncated \<Rightarrow> Pending
           | Resp res \<Rightarrow>
               (case testDeviceConnection_try (json_parse E) ipaddr (body res) of
                  Inl error \<Rightarrow> Resolved None
                | Inr found \<Rightarrow> Resolved found),
           t'))"

section \<open>Info fetch, upload and reboot\<close>

definition info_request :: "jsstring \<Rightarrow> request" where
  "info_request deviceIp =
     \<lparr>hostname = deviceIp, port = DEFAULT_PORT, path = INFO, http_method = ''GET'', headers = [],
      timeout = None, written = NoBody\<rparr>"

definition getDeviceInfo_try :: "(string \<Rightarrow> jsval option) \<Rightarrow> string \<Rightarrow> js_error + jsval" where
  "getDeviceInfo_try parse received =
     (case parse received of
        None \<Rightarrow> Inl (SyntaxError ''Unexpected token in JSON'')
      | Some info \<Rightarrow> and_then (log_firmwareVersion info) (\<lambda>_. Inr info))"

text \<open>\<^verbatim>\<open>getDeviceInfo\<close> does not look at the status code of the response.\<close>

definition getDeviceInfo :: "env \<Rightarrow> jsstring \<Rightarrow> jsval action" where
  "getDeviceInfo E deviceIp t =
     (let req = info_request deviceIp in
      case http_request E req t of
        (Threw error, t') \<Rightarrow> (Rejected error, t')
      | (Met outcome, t') \<Rightarrow>
          (case outcome of
             NetError error \<Rightarrow> Rejected error
           | NoResponse \<Rightarrow> Pending
           | Truncated \<Rightarrow> Pending
           | Resp res \<Rightarrow>
               (case getDeviceInfo_try (json_parse E) (body res) of
                  Inl error \<Rightarrow> Rejected (Error ''Failed to parse device info response'')
                | Inr info \<Rightarrow> Resolved info),
           t'))"

record http_outcome =
  ok :: bool
  status :: nat
  statusText :: string
  data :: string

definition outcome_of :: "response \<Rightarrow> http_outcome" where
  "outcome_of res =
     \<lparr>ok = (statusCode res = 200), status = statusCode res, statusText = statusMessage res,
      data = body res\<rparr>"

definition upload_request :: "jsstring \<Rightarrow> bytes \<Rightarrow> bool \<Rightarrow> request" where
  "upload_request deviceIp firmware isMainBoard =
     \<lparr>hostname = deviceIp, port = DEFAULT_PORT,
      path = (if isMainBoard then FIRMWARE_CHARGER else FIRMWARE_REAR),
      http_method = ''POST'', headers = [(''Content-Length'', length firmware)],
      timeout = None, written = Buffer firmware\<rparr>"

definition uploadFirmware :: "env \<Rightarrow> jsstring \<Rightarrow> bytes \<Rightarrow> bool \<Rightarrow> http_outcome action" where
  "uploadFirmware E deviceIp firmware isMainBoard t =
     (let req = upload_request deviceIp firmware isMainBoard in
      case http_request E req t of
        (Threw error, t') \<Rightarrow> (Rejected error, t')
      | (Met outcome, t') \<Rightarrow>
          (case outcome of
             NetError error \<Rightarrow> Rejected error
           | NoResponse \<Rightarrow> Pending
           | Truncated \<Rightarrow> Pending
           | Resp res \<Rightarrow> Resolved (outcome_of res),
           t'))"

definition reboot_request :: "jsstring \<Rightarrow> jsstring \<Rightarrow> request" where
  "reboot_request deviceIp board =
     \<lparr>hostname = deviceIp, port = DEFAULT_PORT, path = REBOOT @ js ''?board='' @ board,
      http_method = ''POST'', headers = [(''Content-Length'', 4)],
      timeout = None, written = Text board\<rparr>"

definition rebootDevice :: "env \<Rightarrow> jsstring \<Rightarrow> jsstring \<Rightarrow> http_outcome action" where
  "rebootDevice E deviceIp board t =
     (let req = reboot_request deviceIp board in
      case http_request E req t of
        (Threw error, t') \<Rightarrow> (Rejected error, t')
      | (Met outcome, t') \<Rightarrow>
          (case outcome of
             NetError error \<Rightarrow> Rejected error
           | NoResponse \<Rightarrow> Pending
           | Truncated \<Rightarrow> Pending
           | Resp res \<Rightarrow> Resolved (outcome_of res),
           t'))"

section \<open>The update orchestrator\<close>

text \<open>
  \<^verbatim>\<open>await\<close>: a rejected promise throws and ends the function, a promise that never
  settles leaves it suspended.
\<close>

definition await :: "'a action \<Rightarrow> ('a \<Rightarrow> 'b action) \<Rightarrow> 'b action" where
  "await m k t =
     (case m t of
        (Resolved a, t') \<Rightarrow> k a t'
      | (Rejected e, t') \<Rightarrow> (Rejected e, t')
      | (Pending, t') \<Rightarrow> (Pending, t'))"

definition throw :: "js_error \<Rightarrow> 'a action" where
  "throw e t = (Rejected e, t)"

definition return :: "'a \<Rightarrow> 'a action" where
  "return a t = (Resolved a, t)"

text \<open>
  A step that involves neither the device nor a delay (a log line, reading a file): it
  gives its value, or the function is rejected with what the step threw.
\<close>

definition local_step :: "js_error + 'a \<Rightarrow> 'a action" where
  "local_step r t = (case r of Inl e \<Rightarrow> (Rejected e, t) | Inr a \<Rightarrow> (Resolved a, t))"

text \<open>\<^verbatim>\<open>new Promise(resolve => setTimeout(resolve, ms))\<close>.\<close>

definition sleep :: "nat \<Rightarrow> unit action" where
  "sleep ms t = (Resolved (), t @ [Wait ms])"

definition try_catch :: "'a action \<Rightarrow> (js_error \<Rightarrow> 'a action) \<Rightarrow> 'a action" where
  "try_catch m h t =
     (case m t of
        (Rejected e, t') \<Rightarrow> h e t'
      | (Resolved a, t') \<Rightarrow> (Resolved a, t')
      | (Pending, t') \<Rightarrow> (Pending, t'))"

definition executeFirmwareUpdate ::
  "env \<Rightarrow> jsstring \<Rightarrow> jsstring \<Rightarrow> jsstring \<Rightarrow> unit action" where
  "executeFirmwareUpdate E deviceIp mainFirmwarePath rearFirmwarePath =
     try_catch
      (await (getDeviceInfo E deviceIp) (\<lambda>deviceInfo.
       await (local_step (log_firmwareVersion deviceInfo)) (\<lambda>_.
       await (local_step (readFile E mainFirmwarePath)) (\<lambda>mainFirmware.
       await (local_step (readFile E rearFirmwarePath)) (\<lambda>rearFirmware.
       await (uploadFirmware E deviceIp mainFirmware True) (\<lambda>mainResponse.
       if \<not> ok mainResponse then
         throw (Error (''Main board firmware upload failed: '' @ string_of_nat (status mainResponse)))
       else
       await (sleep FIRMWARE_PROCESSING_WAIT) (\<lambda>_.
       await (rebootDevice E deviceIp (js ''main'')) (\<lambda>mainRebootResponse.
       if \<not> ok mainRebootResponse then
         throw (Error (''Main board reboot failed: '' @ string_of_nat (status mainRebootResponse)))
       else
       await (sleep SEND_REBOOT_WAIT) (\<lambda>_.
       await (uploadFirmware E deviceIp rearFirmware False) (\<lambda>rearResponse.
       if \<not> ok rearResponse then
         throw (Error (''Rear board firmware upload failed: '' @ string_of_nat (status rearResponse)))
       else
       await (sleep FIRMWARE_PROCESSING_WAIT) (\<lambda>_.
       await (rebootDevice E deviceIp (js ''rear'')) (\<lambda>rearRebootResponse.
       if \<not> ok rearRebootResponse then
         throw (Error (''Rear board reboot failed: '' @ string_of_nat (status rearRebootResponse)))
       else
       await (sleep REAR_BOARD_REBOOT_WAIT) (\<lambda>_.
       try_catch
         (await (getDeviceInfo E deviceIp) (\<lambda>newDeviceInfo.
          await (local_step (log_firmwareVersion newDeviceInfo)) (\<lambda>_. return ())))
         (\<lambda>error. return ()))))))))))))))
      (\<lambda>error. throw error)"

section \<open>Notions used to state the properties\<close>

subsection \<open>Locator\<close>

text \<open>The names of a listing with a given prefix and the suffix \<^verbatim>\<open>.signed.bin\<close>.\<close>

definition matching :: "string \<Rightarrow> jsstring list \<Rightarrow> jsstring list" where
  "matching pre files =
     filter (\<lambda>f. startsWith f (js pre) \<and> endsWith f (js ''.signed.bin'')) files"

subsection \<open>Prober\<close>

text \<open>
  The vendor substring in any letter case: the spellings of \<^verbatim>\<open>klvr\<close> with each letter
  in lower or upper case, U+212A KELVIN SIGN counting as an upper case of k, and a name
  that contains one of them.
\<close>

definition vendor_spellings :: "jsstring list" where
  "vendor_spellings =
     [ [k, l, v, r]. k \<leftarrow> js ''kK'' @ [0x212A], l \<leftarrow> js ''lL'', v \<leftarrow> js ''vV'', r \<leftarrow> js ''rR'']"

definition contains_vendor :: "jsstring \<Rightarrow> bool" where
  "contains_vendor s = list_ex (\<lambda>v. sublist v s) vendor_spellings"

text \<open>
  A field of a parsed body, \<^term>\<open>Undefined\<close> when the body is not an object or has no
  such key.
\<close>

definition field :: "jsval \<Rightarrow> string \<Rightarrow> jsval" where
  "field v k =
     (case v of
        Obj kvs \<Rightarrow> (case map_of kvs (js k) of Some x \<Rightarrow> x | None \<Rightarrow> Undefined)
      | _ \<Rightarrow> Undefined)"

text \<open>
  The name field: \<^verbatim>\<open>deviceName\<close> is looked at first, and gives way to \<^verbatim>\<open>name\<close>
  when it is missing, empty or otherwise falsy.
\<close>

definition name_field :: "jsval \<Rightarrow> jsval" where
  "name_field info =
     (if truthy (field info ''deviceName'') then field info ''deviceName''
      else field info ''name'')"


text \<open>
  The serial number by priority: the \<^verbatim>\<open>serialNumber\<close> field, then the
  \<^verbatim>\<open>macAddress\<close> inside the \<^verbatim>\<open>ip\<close> field, then the literal; a source that is
  missing, empty or otherwise falsy is passed over.
\<close>

definition resolved_serial :: "jsval \<Rightarrow> jsval" where
  "resolved_serial info =
     (if truthy (field info ''serialNumber'') then field info ''serialNumber''
      else if truthy (field (field info ''ip'') ''macAddress'')
        then field (field info ''ip'') ''macAddress''
      else Str (js ''Unknown''))"

subsection \<open>Byte lengths\<close>

text \<open>
  The number of bytes a string takes when it is written to a request, in UTF-8: one to
  three bytes for a code unit, four for a surrogate pair, three for a lone surrogate.
\<close>

definition unit_bytes :: "code_unit \<Rightarrow> nat" where
  "unit_bytes c = (if c < 0x80 then 1 else if c < 0x800 then 2 else 3)"

definition high_surrogate :: "code_unit \<Rightarrow> bool" where
  "high_surrogate c = (0xD800 \<le> c \<and> c \<le> 0xDBFF)"

definition low_surrogate :: "code_unit \<Rightarrow> bool" where
  "low_surrogate c = (0xDC00 \<le> c \<and> c \<le> 0xDFFF)"

fun utf8_length :: "jsstring \<Rightarrow> nat" where
  "utf8_length [] = 0"
| "utf8_length [c] = unit_bytes c"
| "utf8_length (c # d # cs) =
     (if high_surrogate c \<and> low_surrogate d then 4 + utf8_length cs
      else unit_bytes c + utf8_length (d # cs))"

fun payload_length :: "payload \<Rightarrow> nat" where
  "payload_length NoBody = 0"
| "payload_length (Buffer b) = length b"
| "payload_length (Text s) = utf8_length s"

subsection \<open>Orchestrator\<close>

text \<open>The sequence of device calls and waits of a complete update.\<close>

definition planned :: "jsstring \<Rightarrow> bytes \<Rightarrow> bytes \<Rightarrow> event list" where
  "planned deviceIp mainFirmware rearFirmware =
     [Call (info_request deviceIp),
      Call (upload_request deviceIp mainFirmware True),
      Wait 7000,
      Call (reboot_request deviceIp (js ''main'')),
      Wait 1500,
      Call (upload_request deviceIp rearFirmware False),
      Wait 7000,
      Call (reboot_request deviceIp (js ''rear'')),
      Wait 20000,
      Call (info_request deviceIp)]"

text \<open>The device answers a request, issued after the events \<open>t\<close>, with status 200.\<close>

definition answers_200 :: "env \<Rightarrow> event list \<Rightarrow> request \<Rightarrow> bool" where
  "answers_200 E t req = (case device E t req of Resp res \<Rightarrow> statusCode res = 200 | _ \<Rightarrow> False)"

text \<open>
  The four calls whose status the orchestrator checks, with their position in
  \<^const>\<open>planned\<close>, their request and the name the error message gives them.
\<close>

datatype post_step = MainUpload | MainReboot | RearUpload | RearReboot

fun step_index :: "post_step \<Rightarrow> nat" where
  "step_index MainUpload = 1"
| "step_index MainReboot = 3"
| "step_index RearUpload = 5"
| "step_index RearReboot = 7"

fun step_name :: "post_step \<Rightarrow> string" where
  "step_name MainUpload = ''Main board firmware upload''"
| "step_name MainReboot = ''Main board reboot''"
| "step_name RearUpload = ''Rear board firmware upload''"
| "step_name RearReboot = ''Rear board reboot''"

fun step_request :: "post_step \<Rightarrow> jsstring \<Rightarrow> bytes \<Rightarrow> bytes \<Rightarrow> request" where
  "step_request MainUpload deviceIp mainFirmware rearFirmware =
     upload_request deviceIp mainFirmware True"
| "step_request MainReboot deviceIp mainFirmware rearFirmware =
     reboot_request deviceIp (js ''main'')"
| "step_request RearUpload deviceIp mainFirmware rearFirmware =
     upload_request deviceIp rearFirmware False"
| "step_request RearReboot deviceIp mainFirmware rearFirmware =
     reboot_request deviceIp (js ''rear'')"

text \<open>
  The last step of the update, after its \<^verbatim>\<open>catch\<close> has swallowed a failure: one more
  info request, whose outcome only matters when it never settles.
\<close>

definition final_info :: "env \<Rightarrow> jsstring \<Rightarrow> unit action" where
  "final_info E deviceIp t =
     (case request_error (info_request deviceIp) of
        Some e \<Rightarrow> (Resolved (), t)
      | None \<Rightarrow>
          (if device E t (info_request deviceIp) = NoResponse \<or>
              device E t (info_request deviceIp) = Truncated
           then Pending else Resolved (),
           t @ [Call (info_request deviceIp)]))"

text \<open>An action only appends events that satisfy \<open>P\<close>.\<close>

definition emits :: "(event \<Rightarrow> bool) \<Rightarrow> 'a action \<Rightarrow> bool" where
  "emits P m = (\<forall>t. \<exists>ev. snd (m t) = t @ ev \<and> list_all P ev)"

definition update_event :: "jsstring \<Rightarrow> event \<Rightarrow> bool" where
  "update_event deviceIp e =
     (case e of
        Wait ms \<Rightarrow> True
      | Call req \<Rightarrow>
          req = info_request deviceIp \<or> req = reboot_request deviceIp (js ''main'') \<or>
          req = reboot_request deviceIp (js ''rear'') \<or>
          (\<exists>firmware isMainBoard. req = upload_request deviceIp firmware isMainBoard))"

section \<open>Example inputs\<close>

text \<open>
  A firmware directory with two main images, one rear image and two other files, of which
  \<^verbatim>\<open>notes.txt\<close> cannot be accessed.
\<close>

definition example_listing :: "jsstring list" where
  "example_listing =
     [js ''main_20230101.signed.bin'', js ''notes.txt'', js ''main_20230215.signed.bin'',
      js ''rear_20221130.signed.bin'', js ''main_20230301.bin'']"

definition example_fs :: "jsstring list \<Rightarrow> filesystem" where
  "example_fs files =
     \<lparr>readdir = (\<lambda>d. Inr files),
      access = (\<lambda>p. if p = js ''/opt/firmware/notes.txt''
                     then Some (SystemError ''EACCES: permission denied'') else None)\<rparr>"

text \<open>
  Two main images whose names differ in a character above U+FFFF (written as the
  surrogate pair D83D DE00) against U+FFFD.
\<close>

definition astral_listing :: "jsstring list" where
  "astral_listing =
     [js ''main_'' @ [0xFFFD] @ js ''.signed.bin'',
      js ''main_'' @ [0xD83D, 0xDE00] @ js ''.signed.bin'',
      js ''rear_1.signed.bin'']"

text \<open>
  A mock device that answers every request with an empty JSON object and a status chosen
  from the request; two firmware files on disk.
\<close>

definition mock_parse :: "string \<Rightarrow> jsval option" where
  "mock_parse s = (if s = ''{}'' then Some (Obj []) else None)"

definition mock_readFile :: "jsstring \<Rightarrow> js_error + bytes" where
  "mock_readFile p =
     (if p = js ''firmware/main_v2.signed.bin'' then Inr ''MAIN-IMAGE''
      else if p = js ''firmware/rear_v2.signed.bin'' then Inr ''REAR-IMAGE''
      else Inl (SystemError ''ENOENT: no such file or directory''))"

definition mock_env :: "(request \<Rightarrow> nat) \<Rightarrow> env" where
  "mock_env code =
     \<lparr>device = (\<lambda>t req. Resp \<lparr>statusCode = code req, statusMessage = ''mock'', body = ''{}''\<rparr>),
      json_parse = mock_parse, readFile = mock_readFile\<rparr>"

definition all_200 :: "request \<Rightarrow> nat" where
  "all_200 req = 200"

definition main_upload_500 :: "request \<Rightarrow> nat" where
  "main_upload_500 req = (if path req = FIRMWARE_CHARGER then 500 else 200)"

definition rear_reboot_503 :: "request \<Rightarrow> nat" where
  "rear_reboot_503 req = (if path req = REBOOT @ js ''?board=rear'' then 503 else 200)"

definition info_404 :: "request \<Rightarrow> nat" where
  "info_404 req = (if http_method req = ''GET'' then 404 else 200)"

text \<open>A device with one fixed outcome, and a body that parses to one fixed value.\<close>

definition fixed_env :: "net_outcome \<Rightarrow> jsval option \<Rightarrow> env" where
  "fixed_env outcome parsed =
     \<lparr>device = (\<lambda>t req. outcome), json_parse = (\<lambda>s. parsed), readFile = mock_readFile\<rparr>"

definition refused :: net_outcome where
  "refused = NetError (SystemError ''connect ECONNREFUSED'')"

definition answer_200 :: net_outcome where
  "answer_200 = Resp \<lparr>statusCode = 200, statusMessage = ''OK'', body = ''(body)''\<rparr>"

definition info_with_serial :: jsval where
  "info_with_serial =
     Obj [(js ''name'', Str (js ''KLVR Charger Pro'')),
          (js ''firmwareVersion'', Str (js ''1.8.3'')),
          (js ''serialNumber'', Str (js ''SN-0042'')),
          (js ''ip'', Obj [(js ''macAddress'', Str (js ''AA:BB:CC:DD:EE:FF''))])]"

definition info_with_mac :: jsval where
  "info_with_mac =
     Obj [(js ''deviceName'', Str (js ''klvr-charger'')), (js ''name'', Str (js ''other'')),
          (js ''ip'', Obj [(js ''macAddress'', Str (js ''AA:BB:CC:DD:EE:FF''))])]"

definition info_bare :: jsval where
  "info_bare = Obj [(js ''deviceName'', Str (js ''My Klvr''))]"

text \<open>A name spelt with U+212A KELVIN SIGN in place of the letter K.\<close>

definition info_kelvin :: jsval where
  "info_kelvin = Obj [(js ''deviceName'', Str ([0x212A] @ js ''LVR Charger''))]"


section \<open>Auxiliary facts\<close>

subsection \<open>Sorting and the greatest name\<close>

lemma last_sorted_Max:
  fixes xs :: "'a::linorder list"
  assumes "sorted xs" and "xs \<noteq> []"
  shows "last xs = Max (set xs)"
  using assms
proof (induction xs)
  case Nil
  then show ?case by simp
next
  case (Cons x xs)
  show ?case
  proof (cases "xs = []")
    case True
    then show ?thesis by simp
  next
    case False
    with Cons have ih: "last xs = Max (set xs)" by simp
    from Cons.prems have "\<forall>y\<in>set xs. x \<le> y" by simp
    moreover have "hd xs \<in> set xs" using False by simp
    ultimately have "x \<le> hd xs" by blast
    also have "hd xs \<le> Max (set xs)" using False by (intro Max_ge) simp_all
    finally have "x \<le> Max (set xs)" .
    with False ih show ?thesis by (simp add: max_def)
  qed
qed

lemma sort_Nil_iff:
  fixes xs :: "'a::linorder list"
  shows "sort xs = [] \<longleftrightarrow> xs = []"
  by (metis length_sort length_0_conv)

lemma first_of_descending:
  fixes xs :: "'a::linorder list"
  assumes "xs \<noteq> []"
  shows "rev (sort xs) ! 0 = Max (set xs)"
proof -
  have ne: "sort xs \<noteq> []" using assms by (simp add: sort_Nil_iff)
  have "rev (sort xs) ! 0 = last (sort xs)"
    using ne by (simp add: hd_rev flip: hd_conv_nth)
  also have "\<dots> = Max (set (sort xs))"
    using ne by (intro last_sorted_Max) simp_all
  finally show ?thesis by simp
qed

subsection \<open>The vendor substring\<close>

lemma lower_unit_k: "lower_unit c = 0x6B \<longleftrightarrow> c = 0x6B \<or> c = 0x4B \<or> c = 0x212A"
  by (auto simp: lower_unit_def js_def split: if_splits)

lemma lower_unit_l: "lower_unit c = 0x6C \<longleftrightarrow> c = 0x6C \<or> c = 0x4C"
  by (auto simp: lower_unit_def js_def split: if_splits)

lemma lower_unit_v: "lower_unit c = 0x76 \<longleftrightarrow> c = 0x76 \<or> c = 0x56"
  by (auto simp: lower_unit_def js_def split: if_splits)

lemma lower_unit_r: "lower_unit c = 0x72 \<longleftrightarrow> c = 0x72 \<or> c = 0x52"
  by (auto simp: lower_unit_def js_def split: if_splits)

lemma lowered_four:
  "map lower_unit m = js ''klvr'' \<longleftrightarrow>
     (\<exists>a b c d. m = [a, b, c, d] \<and> lower_unit a = 0x6B \<and> lower_unit b = 0x6C \<and>
        lower_unit c = 0x76 \<and> lower_unit d = 0x72)"
  by (auto simp: map_eq_Cons_conv js_def)

lemma four_letters_iff:
  "m \<in> set [ [k, l, v, r]. k \<leftarrow> ks, l \<leftarrow> ls, v \<leftarrow> vs, r \<leftarrow> rs] \<longleftrightarrow>
     (\<exists>a b c d. m = [a, b, c, d] \<and> a \<in> set ks \<and> b \<in> set ls \<and> c \<in> set vs \<and> d \<in> set rs)"
  by auto

lemma vendor_spellings_iff:
  "m \<in> set vendor_spellings \<longleftrightarrow>
     (\<exists>a b c d. m = [a, b, c, d] \<and> (a = 0x6B \<or> a = 0x4B \<or> a = 0x212A) \<and>
        (b = 0x6C \<or> b = 0x4C) \<and> (c = 0x76 \<or> c = 0x56) \<and> (d = 0x72 \<or> d = 0x52))"
proof -
  have k: "a \<in> set (js ''kK'' @ [0x212A]) \<longleftrightarrow> a = 0x6B \<or> a = 0x4B \<or> a = 0x212A" for a
    by (simp add: js_def)
  have l: "b \<in> set (js ''lL'') \<longleftrightarrow> b = 0x6C \<or> b = 0x4C" for b
    by (simp add: js_def)
  have v: "c \<in> set (js ''vV'') \<longleftrightarrow> c = 0x76 \<or> c = 0x56" for c
    by (simp add: js_def)
  have r: "d \<in> set (js ''rR'') \<longleftrightarrow> d = 0x72 \<or> d = 0x52" for d
    by (simp add: js_def)
  show ?thesis
    unfolding vendor_spellings_def four_letters_iff k l v r by (rule refl)
qed

lemma lowered_klvr: "map lower_unit m = js ''klvr'' \<longleftrightarrow> m \<in> set vendor_spellings"
  by (simp only: lowered_four vendor_spellings_iff lower_unit_k lower_unit_l lower_unit_v
        lower_unit_r)

lemma sublist_map_iff: "sublist k (map f s) \<longleftrightarrow> (\<exists>m. sublist m s \<and> map f m = k)"
proof
  assume "sublist k (map f s)"
  then obtain ps ss where "map f s = ps @ (k @ ss)" unfolding sublist_def by blast
  then have "\<exists>p r. s = p @ r \<and> ps = map f p \<and> k @ ss = map f r"
    by (simp only: map_eq_append_conv)
  then obtain p r where s: "s = p @ r" and r: "map f r = k @ ss" by metis
  from r have "\<exists>m q. r = m @ q \<and> k = map f m \<and> ss = map f q"
    by (simp only: map_eq_append_conv)
  then obtain m q where "r = m @ q" and m: "map f m = k" by metis
  with s have "s = p @ m @ q" by simp
  then have "sublist m s" unfolding sublist_def by blast
  with m show "\<exists>m. sublist m s \<and> map f m = k" by blast
next
  assume "\<exists>m. sublist m s \<and> map f m = k"
  then obtain m p q where "s = p @ m @ q" and "map f m = k" unfolding sublist_def by blast
  then have "map f s = map f p @ k @ map f q" by simp
  then show "sublist k (map f s)" unfolding sublist_def by blast
qed

text \<open>
  The test of the program, \<^verbatim>\<open>deviceName.toLowerCase().includes('klvr')\<close>, holds exactly
  of the names that contain the vendor substring in some letter case.
\<close>

lemma includes_klvr_iff: "str_includes (toLowerCase s) (js ''klvr'') \<longleftrightarrow> contains_vendor s"
  unfolding str_includes_def toLowerCase_def contains_vendor_def sublist_map_iff lowered_klvr
    list_ex_iff
  by blast

subsection \<open>The prober on a parsed body\<close>

lemma and_then_Inr: "and_then (Inr a) k = k a"
  by (simp add: and_then_def)


lemma opt_chain_field: "opt_chain v k = Inr (field v k)"
  by (cases v) (simp_all add: field_def)

lemma name_field_Str_Obj: "name_field info = Str n \<Longrightarrow> \<exists>kvs. info = Obj kvs"
  by (cases info) (simp_all add: name_field_def field_def)

lemma try_Obj:
  assumes "parse received = Some (Obj kvs)"
  shows "testDeviceConnection_try parse ipaddr received =
           (if \<not> truthy (name_field (Obj kvs)) then Inr None
            else and_then (call_toLowerCase (name_field (Obj kvs))) (\<lambda>lowered.
              if str_includes lowered (js ''klvr'') then
                Inr (Some \<lparr>ip = ipaddr, deviceName = name_field (Obj kvs),
                           firmwareVersion = field (Obj kvs) ''firmwareVersion'',
                           serialNumber = resolved_serial (Obj kvs)\<rparr>)
              else Inr None))"
proof -
  have gp: "\<And>k. get_prop (Obj kvs) k = Inr (field (Obj kvs) k)" by (simp add: field_def)
  show ?thesis
    unfolding testDeviceConnection_try_def assms option.case gp and_then_Inr
    by (simp add: name_field_def and_then_Inr opt_chain_field resolved_serial_def cong: if_cong)
qed

lemma try_vendor:
  assumes "parse received = Some info" and "name_field info = Str n" and "contains_vendor n"
  shows "testDeviceConnection_try parse ipaddr received =
           Inr (Some \<lparr>ip = ipaddr, deviceName = Str n,
                      firmwareVersion = field info ''firmwareVersion'',
                      serialNumber = resolved_serial info\<rparr>)"
proof -
  from assms(2) obtain kvs where obj: "info = Obj kvs" using name_field_Str_Obj by blast
  have tr: "n \<noteq> []"
    using assms(3) by (auto simp: contains_vendor_def list_ex_iff vendor_spellings_iff)
  have inc: "str_includes (toLowerCase n) (js ''klvr'')"
    using assms(3) by (simp only: includes_klvr_iff)
  show ?thesis
    using assms(1,2) tr inc unfolding obj
    by (simp add: try_Obj and_then_Inr)
qed


subsection \<open>Requests that are sent\<close>

lemma request_error_info:
  "accepted_host deviceIp \<Longrightarrow> request_error (info_request deviceIp) = None"
  by (simp add: request_error_def info_request_def INFO_def js_def invalid_path_unit_def)

lemma request_error_probe:
  "accepted_host ipaddr \<Longrightarrow> request_error (probe_request ipaddr) = None"
  by (simp add: request_error_def probe_request_def INFO_def js_def invalid_path_unit_def)

lemma request_error_upload:
  "accepted_host deviceIp \<Longrightarrow> request_error (upload_request deviceIp firmware isMainBoard) = None"
  by (simp add: request_error_def upload_request_def FIRMWARE_CHARGER_def FIRMWARE_REAR_def
        js_def invalid_path_unit_def)

lemma request_error_reboot_main:
  "accepted_host deviceIp \<Longrightarrow> request_error (reboot_request deviceIp (js ''main'')) = None"
  by (simp add: request_error_def reboot_request_def REBOOT_def js_def invalid_path_unit_def)

lemma request_error_reboot_rear:
  "accepted_host deviceIp \<Longrightarrow> request_error (reboot_request deviceIp (js ''rear'')) = None"
  by (simp add: request_error_def reboot_request_def REBOOT_def js_def invalid_path_unit_def)

lemmas request_sent = request_error_info request_error_probe request_error_upload
  request_error_reboot_main request_error_reboot_rear

lemma http_request_sent:
  "request_error req = None \<Longrightarrow> http_request E req t = (Met (device E t req), t @ [Call req])"
  by (simp add: http_request_def)

lemma http_request_thrown:
  "request_error req = Some e \<Longrightarrow> http_request E req t = (Threw e, t)"
  by (simp add: http_request_def)

subsection \<open>Running the orchestrator step by step\<close>

lemma await_Resolved: "m t = (Resolved a, t') \<Longrightarrow> await m k t = k a t'"
  by (simp add: await_def)

lemma await_Rejected: "m t = (Rejected e, t') \<Longrightarrow> await m k t = (Rejected e, t')"
  by (simp add: await_def)

lemma await_local_step:
  "await (local_step r) k t = (case r of Inl e \<Rightarrow> (Rejected e, t) | Inr a \<Rightarrow> k a t)"
  by (simp add: await_def local_step_def split: sum.splits)

lemma await_sleep: "await (sleep ms) k t = k () (t @ [Wait ms])"
  by (simp add: await_def sleep_def)

lemma getDeviceInfo_try_log:
  "getDeviceInfo_try parse received = Inr info \<Longrightarrow> log_firmwareVersion info = Inr ()"
  by (auto simp: getDeviceInfo_try_def and_then_def split: option.splits sum.splits)

text \<open>
  The bodies \<^verbatim>\<open>getDeviceInfo\<close> accepts: those that parse, to a value other than
  \<^verbatim>\<open>null\<close>, whose \<^verbatim>\<open>firmwareVersion\<close> can be written into the log line.
\<close>

lemma getDeviceInfo_try_Some:
  "parse received = Some v \<Longrightarrow>
   getDeviceInfo_try parse received =
     (if v = Null \<or> v = Undefined \<or> ToString_throws (field v ''firmwareVersion'')
      then Inl (TypeError (if v = Null then ''Cannot read properties of null''
                           else if v = Undefined then ''Cannot read properties of undefined''
                           else ''Cannot convert object to primitive value''))
      else Inr v)"
  by (cases v)
     (simp_all add: getDeviceInfo_try_def log_firmwareVersion_def and_then_def field_def)

lemma getDeviceInfo_try_accepts:
  "getDeviceInfo_try parse received = Inr info \<longleftrightarrow>
     parse received = Some info \<and> info \<noteq> Null \<and> info \<noteq> Undefined \<and>
     \<not> ToString_throws (field info ''firmwareVersion'')"
proof (cases "parse received")
  case None
  then show ?thesis by (simp add: getDeviceInfo_try_def)
next
  case (Some v)
  then show ?thesis by (auto simp: getDeviceInfo_try_Some)
qed

lemma getDeviceInfo_Resp:
  "accepted_host deviceIp \<Longrightarrow> device E t (info_request deviceIp) = Resp res \<Longrightarrow>
   getDeviceInfo E deviceIp t =
     ((case getDeviceInfo_try (json_parse E) (body res) of
         Inl error \<Rightarrow> Rejected (Error ''Failed to parse device info response'')
       | Inr info \<Rightarrow> Resolved info), t @ [Call (info_request deviceIp)])"
  by (simp add: getDeviceInfo_def http_request_sent request_error_info)

lemma getDeviceInfo_NetError:
  "accepted_host deviceIp \<Longrightarrow> device E t (info_request deviceIp) = NetError e \<Longrightarrow>
   getDeviceInfo E deviceIp t = (Rejected e, t @ [Call (info_request deviceIp)])"
  by (simp add: getDeviceInfo_def http_request_sent request_error_info)

lemma uploadFirmware_Resp:
  "accepted_host deviceIp \<Longrightarrow>
   device E t (upload_request deviceIp firmware isMainBoard) = Resp res \<Longrightarrow>
   uploadFirmware E deviceIp firmware isMainBoard t =
     (Resolved (outcome_of res), t @ [Call (upload_request deviceIp firmware isMainBoard)])"
  by (simp add: uploadFirmware_def http_request_sent request_error_upload)

lemma rebootDevice_Resp:
  "request_error (reboot_request deviceIp board) = None \<Longrightarrow>
   device E t (reboot_request deviceIp board) = Resp res \<Longrightarrow>
   rebootDevice E deviceIp board t =
     (Resolved (outcome_of res), t @ [Call (reboot_request deviceIp board)])"
  by (simp add: rebootDevice_def http_request_sent)

lemma answers_200D:
  "answers_200 E t req \<Longrightarrow> \<exists>res. device E t req = Resp res \<and> statusCode res = 200"
  by (auto simp: answers_200_def split: net_outcome.splits)

text \<open>The outer \<^verbatim>\<open>catch\<close> throws again what it caught.\<close>

lemma try_catch_rethrow: "try_catch m (\<lambda>error. throw error) = m"
proof
  fix t
  show "try_catch m (\<lambda>error. throw error) t = m t"
    by (cases "m t"; cases "fst (m t)") (simp_all add: try_catch_def throw_def)
qed

text \<open>The inner \<^verbatim>\<open>try\<close> around the last info fetch never fails.\<close>

lemma best_effort_fetch:
  "try_catch
     (await (getDeviceInfo E deviceIp) (\<lambda>newDeviceInfo.
      await (local_step (log_firmwareVersion newDeviceInfo)) (\<lambda>_. return ())))
     (\<lambda>error. return ()) = final_info E deviceIp"
proof
  fix t
  show "try_catch
     (await (getDeviceInfo E deviceIp) (\<lambda>newDeviceInfo.
      await (local_step (log_firmwareVersion newDeviceInfo)) (\<lambda>_. return ())))
     (\<lambda>error. return ()) t = final_info E deviceIp t"
    by (cases "request_error (info_request deviceIp)";
        cases "device E t (info_request deviceIp)")
       (auto simp: final_info_def try_catch_def await_def getDeviceInfo_def http_request_def
          local_step_def return_def split: sum.splits)
qed

lemma executeFirmwareUpdate_steps:
  "executeFirmwareUpdate E deviceIp mainFirmwarePath rearFirmwarePath =
      (await (getDeviceInfo E deviceIp) (\<lambda>deviceInfo.
       await (local_step (log_firmwareVersion deviceInfo)) (\<lambda>_.
       await (local_step (readFile E mainFirmwarePath)) (\<lambda>mainFirmware.
       await (local_step (readFile E rearFirmwarePath)) (\<lambda>rearFirmware.
       await (uploadFirmware E deviceIp mainFirmware True) (\<lambda>mainResponse.
       if \<not> ok mainResponse then
         throw (Error (''Main board firmware upload failed: '' @ string_of_nat (status mainResponse)))
       else
       await (sleep 7000) (\<lambda>_.
       await (rebootDevice E deviceIp (js ''main'')) (\<lambda>mainRebootResponse.
       if \<not> ok mainRebootResponse then
         throw (Error (''Main board reboot failed: '' @ string_of_nat (status mainRebootResponse)))
       else
       await (sleep 1500) (\<lambda>_.
       await (uploadFirmware E deviceIp rearFirmware False) (\<lambda>rearResponse.
       if \<not> ok rearResponse then
         throw (Error (''Rear board firmware upload failed: '' @ string_of_nat (status rearResponse)))
       else
       await (sleep 7000) (\<lambda>_.
       await (rebootDevice E deviceIp (js ''rear'')) (\<lambda>rearRebootResponse.
       if \<not> ok rearRebootResponse then
         throw (Error (''Rear board reboot failed: '' @ string_of_nat (status rearRebootResponse)))
       else
       await (sleep 20000) (\<lambda>_. final_info E deviceIp)))))))))))))"
  unfolding executeFirmwareUpdate_def try_catch_rethrow best_effort_fetch
    FIRMWARE_PROCESSING_WAIT_def SEND_REBOOT_WAIT_def REAR_BOARD_REBOOT_WAIT_def
  by (rule refl)

text \<open>
  One of the four checked calls fails after the calls before it succeeded: the update
  ends there, with the name of the step and the status in the message.
\<close>

lemma post_step_failure:
  assumes host: "accepted_host deviceIp"
    and info: "device E t (info_request deviceIp) = Resp res0"
    and accepted: "getDeviceInfo_try (json_parse E) (body res0) = Inr info"
    and mainFile: "readFile E mainFirmwarePath = Inr mainFirmware"
    and rearFile: "readFile E rearFirmwarePath = Inr rearFirmware"
    and earlier: "\<forall>s'. step_index s' < step_index s \<longrightarrow>
                    answers_200 E (t @ take (step_index s') (planned deviceIp mainFirmware rearFirmware))
                      (step_request s' deviceIp mainFirmware rearFirmware)"
    and answer: "device E (t @ take (step_index s) (planned deviceIp mainFirmware rearFirmware))
                   (step_request s deviceIp mainFirmware rearFirmware) = Resp res"
    and failed: "statusCode res \<noteq> 200"
  shows "executeFirmwareUpdate E deviceIp mainFirmwarePath rearFirmwarePath t =
           (Rejected (Error (step_name s @ '' failed: '' @ string_of_nat (statusCode res))),
            t @ take (Suc (step_index s)) (planned deviceIp mainFirmware rearFirmware))"
proof -
  note log = getDeviceInfo_try_log [OF accepted]
  note start = await_Resolved await_local_step await_sleep throw_def
        getDeviceInfo_Resp [OF host info] accepted log mainFile rearFile
        uploadFirmware_Resp [OF host] rebootDevice_Resp
        request_error_reboot_main [OF host] request_error_reboot_rear [OF host] outcome_of_def
  have e1: "step_index MainUpload < step_index s \<Longrightarrow>
      \<exists>r. device E (t @ [Call (info_request deviceIp)])
        (upload_request deviceIp mainFirmware True) = Resp r \<and> statusCode r = 200"
    using earlier [rule_format, of MainUpload] by (auto simp: planned_def dest: answers_200D)
  have e2: "step_index MainReboot < step_index s \<Longrightarrow>
      \<exists>r. device E (t @ [Call (info_request deviceIp),
        Call (upload_request deviceIp mainFirmware True), Wait 7000])
        (reboot_request deviceIp (js ''main'')) = Resp r \<and> statusCode r = 200"
    using earlier [rule_format, of MainReboot] by (auto simp: planned_def dest: answers_200D)
  have e3: "step_index RearUpload < step_index s \<Longrightarrow>
      \<exists>r. device E (t @ [Call (info_request deviceIp),
        Call (upload_request deviceIp mainFirmware True), Wait 7000,
        Call (reboot_request deviceIp (js ''main'')), Wait 1500])
        (upload_request deviceIp rearFirmware False) = Resp r \<and> statusCode r = 200"
    using earlier [rule_format, of RearUpload] by (auto simp: planned_def dest: answers_200D)
  show ?thesis
  proof (cases s)
    case MainUpload
    with answer failed show ?thesis
      unfolding executeFirmwareUpdate_steps by (simp add: start planned_def)
  next
    case MainReboot
    with e1 obtain r1 where "device E (t @ [Call (info_request deviceIp)])
        (upload_request deviceIp mainFirmware True) = Resp r1" "statusCode r1 = 200"
      by auto
    with MainReboot answer failed show ?thesis
      unfolding executeFirmwareUpdate_steps by (simp add: start planned_def)
  next
    case RearUpload
    with e1 obtain r1 where "device E (t @ [Call (info_request deviceIp)])
        (upload_request deviceIp mainFirmware True) = Resp r1" "statusCode r1 = 200"
      by auto
    moreover from RearUpload e2 obtain r2 where "device E (t @ [Call (info_request deviceIp),
        Call (upload_request deviceIp mainFirmware True), Wait 7000])
        (reboot_request deviceIp (js ''main'')) = Resp r2" "statusCode r2 = 200"
      by auto
    ultimately show ?thesis
      using RearUpload answer failed
      unfolding executeFirmwareUpdate_steps by (simp add: start planned_def)
  next
    case RearReboot
    with e1 obtain r1 where "device E (t @ [Call (info_request deviceIp)])
        (upload_request deviceIp mainFirmware True) = Resp r1" "statusCode r1 = 200"
      by auto
    moreover from RearReboot e2 obtain r2 where "device E (t @ [Call (info_request deviceIp),
        Call (upload_request deviceIp mainFirmware True), Wait 7000])
        (reboot_request deviceIp (js ''main'')) = Resp r2" "statusCode r2 = 200"
      by auto
    moreover from RearReboot e3 obtain r3 where "device E (t @ [Call (info_request deviceIp),
        Call (upload_request deviceIp mainFirmware True), Wait 7000,
        Call (reboot_request deviceIp (js ''main'')), Wait 1500])
        (upload_request deviceIp rearFirmware False) = Resp r3" "statusCode r3 = 200"
      by auto
    ultimately show ?thesis
      using RearReboot answer failed
      unfolding executeFirmwareUpdate_steps by (simp add: start planned_def)
  qed
qed

text \<open>The info fetch fails: the update ends after that one request.\<close>

lemma info_fetch_failure:
  assumes "getDeviceInfo E deviceIp t = (Rejected e, t')"
  shows "executeFirmwareUpdate E deviceIp mainFirmwarePath rearFirmwarePath t = (Rejected e, t')"
  unfolding executeFirmwareUpdate_steps using assms by (simp add: await_Rejected)

subsection \<open>The events an update can append\<close>

lemma emits_await:
  assumes "emits P m" and "\<And>a. emits P (k a)"
  shows "emits P (await m k)"
  unfolding emits_def
proof
  fix t
  from assms(1) obtain ev where m: "snd (m t) = t @ ev" "list_all P ev"
    unfolding emits_def by blast
  show "\<exists>ev. snd (await m k t) = t @ ev \<and> list_all P ev"
  proof (cases "fst (m t)")
    case (Resolved a)
    from assms(2) [of a] obtain ev' where k: "snd (k a (t @ ev)) = (t @ ev) @ ev'" "list_all P ev'"
      unfolding emits_def by blast
    from Resolved m have "m t = (Resolved a, t @ ev)" by (metis prod.collapse)
    then have "await m k t = k a (t @ ev)" by (simp add: await_def)
    with k m show ?thesis by (intro exI [of _ "ev @ ev'"]) simp
  next
    case (Rejected e)
    with m have "m t = (Rejected e, t @ ev)" by (metis prod.collapse)
    then have "await m k t = (Rejected e, t @ ev)" by (simp add: await_def)
    with m show ?thesis by auto
  next
    case Pending
    with m have "m t = (Pending, t @ ev)" by (metis prod.collapse)
    then have "await m k t = (Pending, t @ ev)" by (simp add: await_def)
    with m show ?thesis by auto
  qed
qed

lemma emits_throw: "emits P (throw e)"
  by (simp add: emits_def throw_def)

lemma emits_local_step: "emits P (local_step r)"
  by (cases r) (simp_all add: emits_def local_step_def)

lemma emits_sleep: "P (Wait ms) \<Longrightarrow> emits P (sleep ms)"
  by (simp add: emits_def sleep_def)

lemma emits_if: "emits P m \<Longrightarrow> emits P n \<Longrightarrow> emits P (if b then m else n)"
  by simp

lemma emits_getDeviceInfo: "P (Call (info_request deviceIp)) \<Longrightarrow> emits P (getDeviceInfo E deviceIp)"
  by (simp add: emits_def getDeviceInfo_def http_request_def Let_def split: option.splits)

lemma emits_final_info: "P (Call (info_request deviceIp)) \<Longrightarrow> emits P (final_info E deviceIp)"
  by (simp add: emits_def final_info_def split: option.splits)

lemma emits_uploadFirmware:
  "P (Call (upload_request deviceIp firmware isMainBoard)) \<Longrightarrow>
   emits P (uploadFirmware E deviceIp firmware isMainBoard)"
  by (simp add: emits_def uploadFirmware_def http_request_def Let_def split: option.splits)

lemma emits_rebootDevice:
  "P (Call (reboot_request deviceIp board)) \<Longrightarrow> emits P (rebootDevice E deviceIp board)"
  by (simp add: emits_def rebootDevice_def http_request_def Let_def split: option.splits)

lemma emits_executeFirmwareUpdate:
  "emits (update_event deviceIp)
     (executeFirmwareUpdate E deviceIp mainFirmwarePath rearFirmwarePath)"
  unfolding executeFirmwareUpdate_steps
  by (intro emits_await emits_if emits_throw emits_local_step emits_sleep emits_getDeviceInfo
        emits_final_info emits_uploadFirmware emits_rebootDevice)
     (auto simp: update_event_def)

lemma reboot_path_only:
  assumes "update_event deviceIp (Call req)" and "prefix REBOOT (path req)"
  shows "req = reboot_request deviceIp (js ''main'') \<or> req = reboot_request deviceIp (js ''rear'')"
  using assms
  by (auto simp: update_event_def info_request_def upload_request_def REBOOT_def INFO_def
        FIRMWARE_CHARGER_def FIRMWARE_REAR_def js_def split: if_splits)

subsection \<open>When the prober does not resolve\<close>

text \<open>
  Outside the cases in which a request is sent and refused, timed out or answered, the
  promise of \<^verbatim>\<open>testDeviceConnection\<close> does not resolve: it is rejected when
  \<^verbatim>\<open>http.request\<close> throws, and it stays pending when the response is cut off before its
  \<^verbatim>\<open>'end'\<close>.
\<close>

lemma prober_rejects_or_pends:
  "(request_error (probe_request ipaddr) = Some e \<longrightarrow>
      testDeviceConnection E ipaddr t = (Rejected e, t)) \<and>
   (request_error (probe_request ipaddr) = None \<and>
    device E t (probe_request ipaddr) = Truncated \<longrightarrow>
      testDeviceConnection E ipaddr t = (Pending, t @ [Call (probe_request ipaddr)]))"
  by (simp add: testDeviceConnection_def http_request_def)

lemma rebootDevice_thrown:
  "request_error (reboot_request deviceIp board) = Some e \<Longrightarrow>
   rebootDevice E deviceIp board t = (Rejected e, t)"
  by (simp add: rebootDevice_def http_request_def)

text \<open>
  An update for a host name that \<^verbatim>\<open>http.request\<close> does not accept ends at its first
  step, the info fetch, with nothing sent: the uploads and reboots are only ever reached
  with a host name that was accepted.
\<close>

lemma getDeviceInfo_thrown:
  "request_error (info_request deviceIp) = Some e \<Longrightarrow>
   getDeviceInfo E deviceIp t = (Rejected e, t)"
  by (simp add: getDeviceInfo_def http_request_def)

lemma update_needs_accepted_host:
  assumes "\<not> accepted_host deviceIp"
  shows "\<exists>e. executeFirmwareUpdate E deviceIp mainFirmwarePath rearFirmwarePath t =
           (Rejected e, t)"
proof -
  from assms have "\<exists>e. request_error (info_request deviceIp) = Some e"
    by (simp add: request_error_def info_request_def)
  then obtain e where "request_error (info_request deviceIp) = Some e" ..
  then have "getDeviceInfo E deviceIp t = (Rejected e, t)"
    by (rule getDeviceInfo_thrown)
  then have "executeFirmwareUpdate E deviceIp mainFirmwarePath rearFirmwarePath t =
               (Rejected e, t)"
    unfolding executeFirmwareUpdate_steps by (simp add: await_Rejected)
  then show ?thesis ..
qed

section \<open>Properties of the orchestrator\<close>

text \<open>
  Claim C1. On a success path, where the host name is one \<^verbatim>\<open>http.request\<close> accepts, the
  info fetch is answered with a body the program accepts (see
  \<open>getDeviceInfo_try_accepts\<close>), both firmware files are read, and the two uploads and the
  two reboots are each answered with status 200, the orchestrator performs exactly the
  sequence info fetch, upload(main), wait 7000 ms, reboot(main), wait 1500 ms,
  upload(rear), wait 7000 ms, reboot(rear), wait 20000 ms, best-effort info fetch, in that
  order and with nothing else in between. The update then resolves, unless the last,
  best-effort request never settles. The hypotheses name each required call at the point
  where it is issued; the status of the info response plays no part.
\<close>

theorem update_success_sequence:
  assumes host: "accepted_host deviceIp"
    and info: "device E t (info_request deviceIp) = Resp res0"
    and accepted: "getDeviceInfo_try (json_parse E) (body res0) = Inr info"
    and mainFile: "readFile E mainFirmwarePath = Inr mainFirmware"
    and rearFile: "readFile E rearFirmwarePath = Inr rearFirmware"
    and up_main: "answers_200 E (t @ take 1 (planned deviceIp mainFirmware rearFirmware))
                    (upload_request deviceIp mainFirmware True)"
    and rb_main: "answers_200 E (t @ take 3 (planned deviceIp mainFirmware rearFirmware))
                    (reboot_request deviceIp (js ''main''))"
    and up_rear: "answers_200 E (t @ take 5 (planned deviceIp mainFirmware rearFirmware))
                    (upload_request deviceIp rearFirmware False)"
    and rb_rear: "answers_200 E (t @ take 7 (planned deviceIp mainFirmware rearFirmware))
                    (reboot_request deviceIp (js ''rear''))"
  shows "executeFirmwareUpdate E deviceIp mainFirmwarePath rearFirmwarePath t =
           (if device E (t @ take 9 (planned deviceIp mainFirmware rearFirmware))
                 (info_request deviceIp) = NoResponse \<or>
               device E (t @ take 9 (planned deviceIp mainFirmware rearFirmware))
                 (info_request deviceIp) = Truncated
            then Pending else Resolved (),
            t @ [Call (info_request deviceIp),
                 Call (upload_request deviceIp mainFirmware True),
                 Wait 7000,
                 Call (reboot_request deviceIp (js ''main'')),
                 Wait 1500,
                 Call (upload_request deviceIp rearFirmware False),
                 Wait 7000,
                 Call (reboot_request deviceIp (js ''rear'')),
                 Wait 20000,
                 Call (info_request deviceIp)])"
proof -
  note log = getDeviceInfo_try_log [OF accepted]
  from up_main obtain r1 where r1: "device E (t @ [Call (info_request deviceIp)])
      (upload_request deviceIp mainFirmware True) = Resp r1" "statusCode r1 = 200"
    by (auto simp: planned_def dest: answers_200D)
  from rb_main obtain r2 where r2: "device E (t @ [Call (info_request deviceIp),
      Call (upload_request deviceIp mainFirmware True), Wait 7000])
      (reboot_request deviceIp (js ''main'')) = Resp r2" "statusCode r2 = 200"
    by (auto simp: planned_def dest: answers_200D)
  from up_rear obtain r3 where r3: "device E (t @ [Call (info_request deviceIp),
      Call (upload_request deviceIp mainFirmware True), Wait 7000,
      Call (reboot_request deviceIp (js ''main'')), Wait 1500])
      (upload_request deviceIp rearFirmware False) = Resp r3" "statusCode r3 = 200"
    by (auto simp: planned_def dest: answers_200D)
  from rb_rear obtain r4 where r4: "device E (t @ [Call (info_request deviceIp),
      Call (upload_request deviceIp mainFirmware True), Wait 7000,
      Call (reboot_request deviceIp (js ''main'')), Wait 1500,
      Call (upload_request deviceIp rearFirmware False), Wait 7000])
      (reboot_request deviceIp (js ''rear'')) = Resp r4" "statusCode r4 = 200"
    by (auto simp: planned_def dest: answers_200D)
  show ?thesis
    unfolding executeFirmwareUpdate_steps
    by (simp add: final_info_def await_Resolved await_local_step await_sleep
        getDeviceInfo_Resp [OF host info] accepted log mainFile rearFile
        uploadFirmware_Resp [OF host] rebootDevice_Resp request_sent [OF host]
        r1 r2 r3 r4 outcome_of_def planned_def)
qed

theorem update_success_sequence_witness:
  "executeFirmwareUpdate (mock_env all_200) (js ''10.110.73.155'')
     (js ''firmware/main_v2.signed.bin'') (js ''firmware/rear_v2.signed.bin'') [] =
   (Resolved (),
    [Call (info_request (js ''10.110.73.155'')),
     Call (upload_request (js ''10.110.73.155'') ''MAIN-IMAGE'' True),
     Wait 7000,
     Call (reboot_request (js ''10.110.73.155'') (js ''main'')),
     Wait 1500,
     Call (upload_request (js ''10.110.73.155'') ''REAR-IMAGE'' False),
     Wait 7000,
     Call (reboot_request (js ''10.110.73.155'') (js ''rear'')),
     Wait 20000,
     Call (info_request (js ''10.110.73.155''))])"
proof -
  let ?E = "mock_env all_200"
  let ?ip = "js ''10.110.73.155''"
  let ?res = "\<lparr>statusCode = 200, statusMessage = ''mock'', body = ''{}''\<rparr>"
  have h0: "accepted_host ?ip" by code_simp
  have h1: "device ?E [] (info_request ?ip) = Resp ?res"
    by (simp add: mock_env_def all_200_def)
  have h2: "getDeviceInfo_try (json_parse ?E) (body ?res) = Inr (Obj [])"
    by (simp add: mock_env_def mock_parse_def getDeviceInfo_try_def log_firmwareVersion_def
        and_then_def)
  have h3: "readFile ?E (js ''firmware/main_v2.signed.bin'') = Inr ''MAIN-IMAGE''"
    by (simp add: mock_env_def mock_readFile_def)
  have h4: "readFile ?E (js ''firmware/rear_v2.signed.bin'') = Inr ''REAR-IMAGE''"
    by (simp add: mock_env_def mock_readFile_def js_def)
  have h: "answers_200 ?E u req" for u req
    by (simp add: answers_200_def mock_env_def all_200_def)
  show ?thesis
    using update_success_sequence [OF h0 h1 h2 h3 h4 h h h h]
    by (simp add: mock_env_def)
qed

text \<open>
  Claim C2. If upload(main) is answered with a status other than 200, the orchestrator
  aborts at once: the calls it has made are the info fetch and that upload, so neither
  reboot(main) nor upload(rear) nor reboot(rear) nor any wait is ever reached, and the
  error it reports is "Main board firmware upload failed: " followed by the status (for
  status 500, "Main board firmware upload failed: 500"). An answer presupposes a request
  that was sent, so the host name is one \<^verbatim>\<open>http.request\<close> accepts.
\<close>

theorem main_upload_failure_aborts:
  assumes host: "accepted_host deviceIp"
    and info: "device E t (info_request deviceIp) = Resp res0"
    and accepted: "getDeviceInfo_try (json_parse E) (body res0) = Inr info"
    and mainFile: "readFile E mainFirmwarePath = Inr mainFirmware"
    and rearFile: "readFile E rearFirmwarePath = Inr rearFirmware"
    and upload: "device E (t @ [Call (info_request deviceIp)])
                   (upload_request deviceIp mainFirmware True) = Resp res"
    and failed: "statusCode res \<noteq> 200"
  shows "executeFirmwareUpdate E deviceIp mainFirmwarePath rearFirmwarePath t =
           (Rejected (Error (''Main board firmware upload failed: '' @
                             string_of_nat (statusCode res))),
            t @ [Call (info_request deviceIp),
                 Call (upload_request deviceIp mainFirmware True)])"
proof -
  note log = getDeviceInfo_try_log [OF accepted]
  show ?thesis
    unfolding executeFirmwareUpdate_steps
    by (simp add: await_Resolved await_local_step throw_def
        getDeviceInfo_Resp [OF host info] accepted log mainFile rearFile
        uploadFirmware_Resp [OF host] upload failed outcome_of_def)
qed

theorem main_upload_failure_aborts_witness:
  "executeFirmwareUpdate (mock_env main_upload_500) (js ''10.110.73.155'')
     (js ''firmware/main_v2.signed.bin'') (js ''firmware/rear_v2.signed.bin'') [] =
   (Rejected (Error ''Main board firmware upload failed: 500''),
    [Call (info_request (js ''10.110.73.155'')),
     Call (upload_request (js ''10.110.73.155'') ''MAIN-IMAGE'' True)])"
proof -
  let ?E = "mock_env main_upload_500"
  let ?ip = "js ''10.110.73.155''"
  let ?first = "\<lparr>statusCode = 200, statusMessage = ''mock'', body = ''{}''\<rparr>"
  let ?res = "\<lparr>statusCode = 500, statusMessage = ''mock'', body = ''{}''\<rparr>"
  have h0: "accepted_host ?ip" by code_simp
  have h1: "device ?E [] (info_request ?ip) = Resp ?first"
    by (simp add: mock_env_def main_upload_500_def info_request_def INFO_def
        FIRMWARE_CHARGER_def js_def)
  have h2: "getDeviceInfo_try (json_parse ?E) (body ?first) = Inr (Obj [])"
    by (simp add: mock_env_def mock_parse_def getDeviceInfo_try_def log_firmwareVersion_def
        and_then_def)
  have h3: "readFile ?E (js ''firmware/main_v2.signed.bin'') = Inr ''MAIN-IMAGE''"
    by (simp add: mock_env_def mock_readFile_def)
  have h4: "readFile ?E (js ''firmware/rear_v2.signed.bin'') = Inr ''REAR-IMAGE''"
    by (simp add: mock_env_def mock_readFile_def js_def)
  have h5: "device ?E ([] @ [Call (info_request ?ip)])
              (upload_request ?ip ''MAIN-IMAGE'' True) = Resp ?res"
    by (simp add: mock_env_def main_upload_500_def upload_request_def)
  have h6: "statusCode ?res \<noteq> 200" by simp
  have digits: "string_of_nat 500 = ''500''" by code_simp
  show ?thesis
    using main_upload_failure_aborts [OF h0 h1 h2 h3 h4 h5 h6] digits by simp
qed

text \<open>
  Claim C3, as the code has it. Each of the four POST transitions, upload(main),
  reboot(main), upload(rear) and reboot(rear), must be answered with status 200:
  when the calls before it succeeded and it is answered with another status, the
  orchestrator aborts after that call with the error "<step> failed: <status>", where
  the step is named "Main board firmware upload", "Main board reboot", "Rear board
  firmware upload" or "Rear board reboot". The info fetch is different: the status of its
  response is not looked at. It aborts the update when the body is not accepted, with the
  error "Failed to parse device info response", and when the request fails, with the error
  of the request; neither names a status. Throughout, the host name is one
  \<^verbatim>\<open>http.request\<close> accepts, as it is whenever a request is answered or fails.
\<close>

theorem checked_steps_abort_with_status:
  "(accepted_host deviceIp \<and>
    device E t (info_request deviceIp) = Resp res0 \<and>
    getDeviceInfo_try (json_parse E) (body res0) = Inr info \<and>
    readFile E mainFirmwarePath = Inr mainFirmware \<and>
    readFile E rearFirmwarePath = Inr rearFirmware \<and>
    (\<forall>s'. step_index s' < step_index s \<longrightarrow>
       answers_200 E (t @ take (step_index s') (planned deviceIp mainFirmware rearFirmware))
         (step_request s' deviceIp mainFirmware rearFirmware)) \<and>
    device E (t @ take (step_index s) (planned deviceIp mainFirmware rearFirmware))
      (step_request s deviceIp mainFirmware rearFirmware) = Resp res \<and>
    statusCode res \<noteq> 200 \<longrightarrow>
    executeFirmwareUpdate E deviceIp mainFirmwarePath rearFirmwarePath t =
      (Rejected (Error (step_name s @ '' failed: '' @ string_of_nat (statusCode res))),
       t @ take (Suc (step_index s)) (planned deviceIp mainFirmware rearFirmware))) \<and>
   (accepted_host deviceIp \<and>
    device E t (info_request deviceIp) = Resp res0 \<and>
    getDeviceInfo_try (json_parse E) (body res0) = Inl e \<longrightarrow>
    executeFirmwareUpdate E deviceIp mainFirmwarePath rearFirmwarePath t =
      (Rejected (Error ''Failed to parse device info response''),
       t @ [Call (info_request deviceIp)])) \<and>
   (accepted_host deviceIp \<and>
    device E t (info_request deviceIp) = NetError e \<longrightarrow>
    executeFirmwareUpdate E deviceIp mainFirmwarePath rearFirmwarePath t =
      (Rejected e, t @ [Call (info_request deviceIp)]))"
proof (intro conjI impI)
  assume "accepted_host deviceIp \<and>
    device E t (info_request deviceIp) = Resp res0 \<and>
    getDeviceInfo_try (json_parse E) (body res0) = Inr info \<and>
    readFile E mainFirmwarePath = Inr mainFirmware \<and>
    readFile E rearFirmwarePath = Inr rearFirmware \<and>
    (\<forall>s'. step_index s' < step_index s \<longrightarrow>
       answers_200 E (t @ take (step_index s') (planned deviceIp mainFirmware rearFirmware))
         (step_request s' deviceIp mainFirmware rearFirmware)) \<and>
    device E (t @ take (step_index s) (planned deviceIp mainFirmware rearFirmware))
      (step_request s deviceIp mainFirmware rearFirmware) = Resp res \<and>
    statusCode res \<noteq> 200"
  then show "executeFirmwareUpdate E deviceIp mainFirmwarePath rearFirmwarePath t =
      (Rejected (Error (step_name s @ '' failed: '' @ string_of_nat (statusCode res))),
       t @ take (Suc (step_index s)) (planned deviceIp mainFirmware rearFirmware))"
    by (intro post_step_failure [where ?res0.0 = res0 and info = info]) blast+
next
  assume a: "accepted_host deviceIp \<and>
    device E t (info_request deviceIp) = Resp res0 \<and>
    getDeviceInfo_try (json_parse E) (body res0) = Inl e"
  then have "getDeviceInfo E deviceIp t =
      (Rejected (Error ''Failed to parse device info response''),
       t @ [Call (info_request deviceIp)])"
    by (simp add: getDeviceInfo_Resp)
  then show "executeFirmwareUpdate E deviceIp mainFirmwarePath rearFirmwarePath t =
      (Rejected (Error ''Failed to parse device info response''),
       t @ [Call (info_request deviceIp)])"
    by (rule info_fetch_failure)
next
  assume "accepted_host deviceIp \<and> device E t (info_request deviceIp) = NetError e"
  then have "getDeviceInfo E deviceIp t = (Rejected e, t @ [Call (info_request deviceIp)])"
    by (simp add: getDeviceInfo_NetError)
  then show "executeFirmwareUpdate E deviceIp mainFirmwarePath rearFirmwarePath t =
      (Rejected e, t @ [Call (info_request deviceIp)])"
    by (rule info_fetch_failure)
qed

theorem checked_steps_abort_with_status_witness:
  "executeFirmwareUpdate (mock_env rear_reboot_503) (js ''10.110.73.155'')
     (js ''firmware/main_v2.signed.bin'') (js ''firmware/rear_v2.signed.bin'') [] =
     (Rejected (Error ''Rear board reboot failed: 503''),
      [Call (info_request (js ''10.110.73.155'')),
       Call (upload_request (js ''10.110.73.155'') ''MAIN-IMAGE'' True),
       Wait 7000,
       Call (reboot_request (js ''10.110.73.155'') (js ''main'')),
       Wait 1500,
       Call (upload_request (js ''10.110.73.155'') ''REAR-IMAGE'' False),
       Wait 7000,
       Call (reboot_request (js ''10.110.73.155'') (js ''rear''))]) \<and>
   executeFirmwareUpdate (fixed_env answer_200 None) (js ''10.110.73.155'')
     (js ''firmware/main_v2.signed.bin'') (js ''firmware/rear_v2.signed.bin'') [] =
     (Rejected (Error ''Failed to parse device info response''),
      [Call (info_request (js ''10.110.73.155''))]) \<and>
   executeFirmwareUpdate (fixed_env refused None) (js ''10.110.73.155'')
     (js ''firmware/main_v2.signed.bin'') (js ''firmware/rear_v2.signed.bin'') [] =
     (Rejected (SystemError ''connect ECONNREFUSED''),
      [Call (info_request (js ''10.110.73.155''))])"
proof -
  let ?E = "mock_env rear_reboot_503"
  let ?ip = "js ''10.110.73.155''"
  let ?mp = "js ''firmware/main_v2.signed.bin''"
  let ?rp = "js ''firmware/rear_v2.signed.bin''"
  let ?ok = "\<lparr>statusCode = 200, statusMessage = ''mock'', body = ''{}''\<rparr>"
  let ?bad = "\<lparr>statusCode = 503, statusMessage = ''mock'', body = ''{}''\<rparr>"
  let ?P = "planned ?ip ''MAIN-IMAGE'' ''REAR-IMAGE''"
  note paths = info_request_def upload_request_def reboot_request_def INFO_def REBOOT_def
    FIRMWARE_CHARGER_def FIRMWARE_REAR_def js_def
  have h0: "accepted_host ?ip" by code_simp
  have h1: "device ?E [] (info_request ?ip) = Resp ?ok"
    by (simp add: mock_env_def rear_reboot_503_def paths)
  have h2: "getDeviceInfo_try (json_parse ?E) (body ?ok) = Inr (Obj [])"
    by (simp add: mock_env_def mock_parse_def getDeviceInfo_try_def log_firmwareVersion_def
        and_then_def)
  have h3: "readFile ?E ?mp = Inr ''MAIN-IMAGE''"
    by (simp add: mock_env_def mock_readFile_def)
  have h4: "readFile ?E ?rp = Inr ''REAR-IMAGE''"
    by (simp add: mock_env_def mock_readFile_def js_def)
  have h5: "\<forall>s'. step_index s' < step_index RearReboot \<longrightarrow>
              answers_200 ?E ([] @ take (step_index s') ?P)
                (step_request s' ?ip ''MAIN-IMAGE'' ''REAR-IMAGE'')"
  proof (intro allI impI)
    fix s' assume "step_index s' < step_index RearReboot"
    then show "answers_200 ?E ([] @ take (step_index s') ?P)
                (step_request s' ?ip ''MAIN-IMAGE'' ''REAR-IMAGE'')"
      by (cases s') (simp_all add: answers_200_def mock_env_def rear_reboot_503_def paths)
  qed
  have h6: "device ?E ([] @ take (step_index RearReboot) ?P)
              (step_request RearReboot ?ip ''MAIN-IMAGE'' ''REAR-IMAGE'') = Resp ?bad"
    by (simp add: mock_env_def rear_reboot_503_def paths)
  have h7: "statusCode ?bad \<noteq> 200" by simp
  have digits: "string_of_nat 503 = ''503''" by code_simp
  have first: "executeFirmwareUpdate ?E ?ip ?mp ?rp [] =
      (Rejected (Error (step_name RearReboot @ '' failed: '' @ string_of_nat (statusCode ?bad))),
       [] @ take (Suc (step_index RearReboot)) ?P)"
    using checked_steps_abort_with_status
      [of ?ip ?E "[]" ?ok "Obj []" ?mp "''MAIN-IMAGE''" ?rp "''REAR-IMAGE''" RearReboot ?bad]
      h0 h1 h2 h3 h4 h5 h6 h7
    by blast
  have g1: "device (fixed_env answer_200 None) [] (info_request ?ip) =
              Resp \<lparr>statusCode = 200, statusMessage = ''OK'', body = ''(body)''\<rparr>"
    by (simp add: fixed_env_def answer_200_def)
  have g2: "getDeviceInfo_try (json_parse (fixed_env answer_200 None))
              (body \<lparr>statusCode = 200, statusMessage = ''OK'', body = ''(body)''\<rparr>) =
              Inl (SyntaxError ''Unexpected token in JSON'')"
    by (simp add: fixed_env_def getDeviceInfo_try_def)
  have second: "executeFirmwareUpdate (fixed_env answer_200 None) ?ip ?mp ?rp [] =
      (Rejected (Error ''Failed to parse device info response''),
       [] @ [Call (info_request ?ip)])"
    using checked_steps_abort_with_status
      [of ?ip "fixed_env answer_200 None" "[]"
          "\<lparr>statusCode = 200, statusMessage = ''OK'', body = ''(body)''\<rparr>"
          _ _ _ _ _ _ _ "SyntaxError ''Unexpected token in JSON''"]
      h0 g1 g2
    by blast
  have g3: "device (fixed_env refused None) [] (info_request ?ip) =
              NetError (SystemError ''connect ECONNREFUSED'')"
    by (simp add: fixed_env_def refused_def)
  have third: "executeFirmwareUpdate (fixed_env refused None) ?ip ?mp ?rp [] =
      (Rejected (SystemError ''connect ECONNREFUSED''), [] @ [Call (info_request ?ip)])"
    using checked_steps_abort_with_status
      [of ?ip "fixed_env refused None" "[]" _ _ _ _ _ _ _ _
          "SystemError ''connect ECONNREFUSED''"]
      h0 g3
    by blast
  from first second third digits show ?thesis
    by (simp add: planned_def)
qed

text \<open>
  Claim C3 as stated fails at the info fetch: a device that answers the info request with
  status 404 and a body the program accepts, and every other request with status 200, sees
  the whole update run and resolve; nothing aborts and no error names the status 404.
\<close>

theorem info_status_not_checked_counterexample:
  "device (mock_env info_404) [] (info_request (js ''10.110.73.155'')) =
     Resp \<lparr>statusCode = 404, statusMessage = ''mock'', body = ''{}''\<rparr> \<and>
   executeFirmwareUpdate (mock_env info_404) (js ''10.110.73.155'')
     (js ''firmware/main_v2.signed.bin'') (js ''firmware/rear_v2.signed.bin'') [] =
     (Resolved (),
      [Call (info_request (js ''10.110.73.155'')),
       Call (upload_request (js ''10.110.73.155'') ''MAIN-IMAGE'' True),
       Wait 7000,
       Call (reboot_request (js ''10.110.73.155'') (js ''main'')),
       Wait 1500,
       Call (upload_request (js ''10.110.73.155'') ''REAR-IMAGE'' False),
       Wait 7000,
       Call (reboot_request (js ''10.110.73.155'') (js ''rear'')),
       Wait 20000,
       Call (info_request (js ''10.110.73.155''))])"
proof -
  let ?E = "mock_env info_404"
  let ?ip = "js ''10.110.73.155''"
  have host: "accepted_host ?ip" by code_simp
  have dev: "device ?E u req =
               Resp \<lparr>statusCode = (if http_method req = ''GET'' then 404 else 200),
                     statusMessage = ''mock'', body = ''{}''\<rparr>" for u req
    by (simp add: mock_env_def info_404_def)
  have get: "http_method (info_request ?ip) = ''GET''" by (simp add: info_request_def)
  have post: "http_method (upload_request ?ip fw b) \<noteq> ''GET''"
             "http_method (reboot_request ?ip board) \<noteq> ''GET''" for fw b board
    by (simp_all add: upload_request_def reboot_request_def)
  have parsed: "getDeviceInfo_try (json_parse ?E) ''{}'' = Inr (Obj [])"
    by (simp add: mock_env_def mock_parse_def getDeviceInfo_try_def log_firmwareVersion_def
        and_then_def)
  have log: "log_firmwareVersion (Obj []) = Inr ()"
    by (simp add: log_firmwareVersion_def and_then_def)
  have files: "readFile ?E (js ''firmware/main_v2.signed.bin'') = Inr ''MAIN-IMAGE''"
              "readFile ?E (js ''firmware/rear_v2.signed.bin'') = Inr ''REAR-IMAGE''"
    by (simp_all add: mock_env_def mock_readFile_def js_def)
  have run: "executeFirmwareUpdate ?E ?ip
      (js ''firmware/main_v2.signed.bin'') (js ''firmware/rear_v2.signed.bin'') [] =
      (Resolved (), planned ?ip ''MAIN-IMAGE'' ''REAR-IMAGE'')"
    unfolding executeFirmwareUpdate_steps
    by (simp add: final_info_def await_Resolved await_local_step await_sleep
        getDeviceInfo_Resp [OF host] uploadFirmware_Resp [OF host] rebootDevice_Resp
        request_sent [OF host] dev get post parsed log files outcome_of_def planned_def)
  from run dev [of "[]" "info_request ?ip"] get show ?thesis
    by (simp add: planned_def)
qed

section \<open>Properties of the firmware locator\<close>

text \<open>
  Claim C4. For every directory listing in which some name has the prefix \<^verbatim>\<open>main_\<close> and
  the suffix \<^verbatim>\<open>.signed.bin\<close>, the locator selects the greatest of these names in the
  lexicographic order of strings (code unit by code unit, not by version), and likewise
  for the prefix \<^verbatim>\<open>rear_\<close>. The selection shows in the bundle the locator returns, which
  it does when both sets are non-empty and the two selected files are accessible; no
  other file of the listing needs to be.
\<close>

theorem locator_selects_maximal:
  assumes listing: "readdir fs dir = Inr files"
    and mains: "matching ''main_'' files \<noteq> []"
    and rears: "matching ''rear_'' files \<noteq> []"
    and main_ok: "access fs (dir @ js ''/'' @ Max (set (matching ''main_'' files))) = None"
    and rear_ok: "access fs (dir @ js ''/'' @ Max (set (matching ''rear_'' files))) = None"
  shows "findLatestFirmwareFiles fs dir =
           Inr \<lparr>main = dir @ js ''/'' @ Max (set (matching ''main_'' files)),
                rear = dir @ js ''/'' @ Max (set (matching ''rear_'' files))\<rparr>"
proof -
  let ?m = "Max (set (matching ''main_'' files))"
  let ?r = "Max (set (matching ''rear_'' files))"
  have m0: "rev (sort (matching ''main_'' files)) ! 0 = ?m"
    using mains by (rule first_of_descending)
  have r0: "rev (sort (matching ''rear_'' files)) ! 0 = ?r"
    using rears by (rule first_of_descending)
  have "findLatestFirmwareFiles_try fs dir =
          Inr \<lparr>main = dir @ js ''/'' @ ?m, rear = dir @ js ''/'' @ ?r\<rparr>"
    using listing mains rears main_ok rear_ok
    by (simp add: findLatestFirmwareFiles_try_def Let_def matching_def sort_Nil_iff
          path_join_def m0 [unfolded matching_def] r0 [unfolded matching_def] del: set_filter)
  then show ?thesis by (simp add: findLatestFirmwareFiles_def)
qed

theorem locator_selects_maximal_witness:
  "findLatestFirmwareFiles (example_fs example_listing) (js ''/opt/firmware'') =
     Inr \<lparr>main = js ''/opt/firmware/main_20230215.signed.bin'',
          rear = js ''/opt/firmware/rear_20221130.signed.bin''\<rparr> \<and>
   access (example_fs example_listing) (js ''/opt/firmware/notes.txt'') \<noteq> None \<and>
   findLatestFirmwareFiles (example_fs astral_listing) (js ''/opt/firmware'') =
     Inr \<lparr>main = js ''/opt/firmware/main_'' @ [0xFFFD] @ js ''.signed.bin'',
          rear = js ''/opt/firmware/rear_1.signed.bin''\<rparr>"
proof -
  let ?dir = "js ''/opt/firmware''"
  have h1: "readdir (example_fs files) ?dir = Inr files" for files
    by (simp add: example_fs_def)
  have h2: "matching ''main_'' example_listing \<noteq> []" by code_simp
  have h3: "matching ''rear_'' example_listing \<noteq> []" by code_simp
  have m: "Max (set (matching ''main_'' example_listing)) = js ''main_20230215.signed.bin''"
    by code_simp
  have r: "Max (set (matching ''rear_'' example_listing)) = js ''rear_20221130.signed.bin''"
    by code_simp
  have h4: "access (example_fs example_listing)
              (?dir @ js ''/'' @ Max (set (matching ''main_'' example_listing))) = None"
    unfolding m by code_simp
  have h5: "access (example_fs example_listing)
              (?dir @ js ''/'' @ Max (set (matching ''rear_'' example_listing))) = None"
    unfolding r by code_simp
  have unreadable: "access (example_fs example_listing) (js ''/opt/firmware/notes.txt'') \<noteq> None"
    by (simp add: example_fs_def)
  have a2: "matching ''main_'' astral_listing \<noteq> []" by code_simp
  have a3: "matching ''rear_'' astral_listing \<noteq> []" by code_simp
  have am: "Max (set (matching ''main_'' astral_listing)) =
              js ''main_'' @ [0xFFFD] @ js ''.signed.bin''"
    by code_simp
  have ar: "Max (set (matching ''rear_'' astral_listing)) = js ''rear_1.signed.bin''"
    by code_simp
  have a4: "access (example_fs astral_listing)
              (?dir @ js ''/'' @ Max (set (matching ''main_'' astral_listing))) = None"
    unfolding am by code_simp
  have a5: "access (example_fs astral_listing)
              (?dir @ js ''/'' @ Max (set (matching ''rear_'' astral_listing))) = None"
    unfolding ar by code_simp
  have first: "findLatestFirmwareFiles (example_fs example_listing) ?dir =
      Inr \<lparr>main = ?dir @ js ''/'' @ js ''main_20230215.signed.bin'',
           rear = ?dir @ js ''/'' @ js ''rear_20221130.signed.bin''\<rparr>"
    using locator_selects_maximal [OF h1 h2 h3 h4 h5] unfolding m r .
  have second: "findLatestFirmwareFiles (example_fs astral_listing) ?dir =
      Inr \<lparr>main = ?dir @ js ''/'' @ js ''main_'' @ [0xFFFD] @ js ''.signed.bin'',
           rear = ?dir @ js ''/'' @ js ''rear_1.signed.bin''\<rparr>"
    using locator_selects_maximal [OF h1 a2 a3 a4 a5] unfolding am ar .
  from first second unreadable show ?thesis by (simp add: js_def)
qed

text \<open>
  Claim C5, as the code has it. For every directory listing with no \<^verbatim>\<open>main_*.signed.bin\<close>
  name, the locator fails with an error whose message names the main category; for every
  listing with such a name and no \<^verbatim>\<open>rear_*.signed.bin\<close> name, it fails with an error
  whose message names the rear category. In neither case does it return a bundle.
\<close>

theorem locator_reports_empty_category:
  assumes "readdir fs dir = Inr files"
  shows "(matching ''main_'' files = [] \<longrightarrow>
            findLatestFirmwareFiles fs dir =
              Inl (Error ''Failed to find firmware files: No main firmware files found in firmware/ directory'')) \<and>
         (matching ''main_'' files \<noteq> [] \<and> matching ''rear_'' files = [] \<longrightarrow>
            findLatestFirmwareFiles fs dir =
              Inl (Error ''Failed to find firmware files: No rear firmware files found in firmware/ directory''))"
  using assms
  by (simp add: findLatestFirmwareFiles_def findLatestFirmwareFiles_try_def Let_def matching_def
        sort_Nil_iff)

theorem locator_reports_empty_category_witness:
  "findLatestFirmwareFiles (example_fs [js ''rear_20221130.signed.bin'']) (js ''/opt/firmware'') =
     Inl (Error ''Failed to find firmware files: No main firmware files found in firmware/ directory'') \<and>
   findLatestFirmwareFiles (example_fs [js ''main_20230215.signed.bin'']) (js ''/opt/firmware'') =
     Inl (Error ''Failed to find firmware files: No rear firmware files found in firmware/ directory'')"
proof -
  have a: "readdir (example_fs [js ''rear_20221130.signed.bin'']) (js ''/opt/firmware'') =
             Inr [js ''rear_20221130.signed.bin'']"
    by (simp add: example_fs_def)
  have b: "readdir (example_fs [js ''main_20230215.signed.bin'']) (js ''/opt/firmware'') =
             Inr [js ''main_20230215.signed.bin'']"
    by (simp add: example_fs_def)
  have a1: "matching ''main_'' [js ''rear_20221130.signed.bin''] = []" by code_simp
  have b1: "matching ''main_'' [js ''main_20230215.signed.bin''] \<noteq> []" by code_simp
  have b2: "matching ''rear_'' [js ''main_20230215.signed.bin''] = []" by code_simp
  show ?thesis
    using locator_reports_empty_category [OF a] locator_reports_empty_category [OF b] a1 b1 b2
    by simp
qed

text \<open>
  Claim C5 as stated fails on a directory with no firmware file at all: no
  \<^verbatim>\<open>rear_*.signed.bin\<close> name matches, yet the error is the one for the main category,
  and its message does not contain \<^verbatim>\<open>rear\<close>.
\<close>

theorem locator_empty_directory_counterexample:
  "matching ''rear_'' [] = [] \<and>
   findLatestFirmwareFiles (example_fs []) (js ''/opt/firmware'') =
     Inl (Error ''Failed to find firmware files: No main firmware files found in firmware/ directory'') \<and>
   \<not> str_includes
        ''Failed to find firmware files: No main firmware files found in firmware/ directory''
        ''rear''"
proof -
  have "\<not> str_includes
        ''Failed to find firmware files: No main firmware files found in firmware/ directory''
        ''rear''"
    by code_simp
  moreover have "findLatestFirmwareFiles (example_fs []) (js ''/opt/firmware'') =
     Inl (Error ''Failed to find firmware files: No main firmware files found in firmware/ directory'')"
    by (simp add: findLatestFirmwareFiles_def findLatestFirmwareFiles_try_def example_fs_def)
  ultimately show ?thesis by (simp add: matching_def)
qed

section \<open>Properties of the device prober\<close>




text \<open>
  Claim C7. For every response whose body is well-formed JSON and whose name field
  (\<^verbatim>\<open>deviceName\<close> looked at before \<^verbatim>\<open>name\<close>) is a string that contains the vendor
  substring in any letter case, the prober resolves to a populated identity: the address
  probed, that name, the \<^verbatim>\<open>firmwareVersion\<close> field, and a serial number taken, in this
  order of priority, from the \<^verbatim>\<open>serialNumber\<close> field, from the \<^verbatim>\<open>macAddress\<close> inside
  the \<^verbatim>\<open>ip\<close> field, or else the literal "Unknown". A response presupposes a request
  that was sent, so the address is a host name \<^verbatim>\<open>http.request\<close> accepts.
\<close>

theorem prober_accepts_vendor_device:
  assumes "accepted_host ipaddr"
    and "device E t (probe_request ipaddr) = Resp res"
    and "json_parse E (body res) = Some info"
    and "name_field info = Str n"
    and "contains_vendor n"
  shows "testDeviceConnection E ipaddr t =
           (Resolved (Some \<lparr>ip = ipaddr, deviceName = Str n,
                             firmwareVersion = field info ''firmwareVersion'',
                             serialNumber =
                               (if truthy (field info ''serialNumber'')
                                  then field info ''serialNumber''
                                else if truthy (field (field info ''ip'') ''macAddress'')
                                  then field (field info ''ip'') ''macAddress''
                                else Str (js ''Unknown''))\<rparr>),
            t @ [Call (probe_request ipaddr)])"
proof -
  have "testDeviceConnection_try (json_parse E) ipaddr (body res) =
          Inr (Some \<lparr>ip = ipaddr, deviceName = Str n,
                     firmwareVersion = field info ''firmwareVersion'',
                     serialNumber = resolved_serial info\<rparr>)"
    using assms(3-5) by (rule try_vendor)
  with assms(1,2) show ?thesis
    by (simp add: testDeviceConnection_def http_request_sent request_error_probe
          resolved_serial_def)
qed

theorem prober_accepts_vendor_device_witness:
  "testDeviceConnection (fixed_env answer_200 (Some info_with_serial)) (js ''10.110.73.155'') [] =
     (Resolved (Some \<lparr>ip = js ''10.110.73.155'', deviceName = Str (js ''KLVR Charger Pro''),
                       firmwareVersion = Str (js ''1.8.3''),
                       serialNumber = Str (js ''SN-0042'')\<rparr>),
      [Call (probe_request (js ''10.110.73.155''))]) \<and>
   testDeviceConnection (fixed_env answer_200 (Some info_with_mac)) (js ''10.110.73.155'') [] =
     (Resolved (Some \<lparr>ip = js ''10.110.73.155'', deviceName = Str (js ''klvr-charger''),
                       firmwareVersion = Undefined,
                       serialNumber = Str (js ''AA:BB:CC:DD:EE:FF'')\<rparr>),
      [Call (probe_request (js ''10.110.73.155''))]) \<and>
   testDeviceConnection (fixed_env answer_200 (Some info_bare)) (js ''10.110.73.155'') [] =
     (Resolved (Some \<lparr>ip = js ''10.110.73.155'', deviceName = Str (js ''My Klvr''),
                       firmwareVersion = Undefined, serialNumber = Str (js ''Unknown'')\<rparr>),
      [Call (probe_request (js ''10.110.73.155''))]) \<and>
   testDeviceConnection (fixed_env answer_200 (Some info_kelvin)) (js ''10.110.73.155'') [] =
     (Resolved (Some \<lparr>ip = js ''10.110.73.155'',
                       deviceName = Str ([0x212A] @ js ''LVR Charger''),
                       firmwareVersion = Undefined, serialNumber = Str (js ''Unknown'')\<rparr>),
      [Call (probe_request (js ''10.110.73.155''))])"
proof -
  let ?ip = "js ''10.110.73.155''"
  let ?ans = "\<lparr>statusCode = 200, statusMessage = ''OK'', body = ''(body)''\<rparr>"
  have host: "accepted_host ?ip" by code_simp
  have dev: "device (fixed_env answer_200 parsed) [] (probe_request ?ip) = Resp ?ans" for parsed
    by (simp add: fixed_env_def answer_200_def)
  have parse: "json_parse (fixed_env answer_200 parsed) (body ?ans) = parsed" for parsed
    by (simp add: fixed_env_def)
  have n1: "name_field info_with_serial = Str (js ''KLVR Charger Pro'')" by code_simp
  have n2: "name_field info_with_mac = Str (js ''klvr-charger'')" by code_simp
  have n3: "name_field info_bare = Str (js ''My Klvr'')" by code_simp
  have n4: "name_field info_kelvin = Str ([0x212A] @ js ''LVR Charger'')" by code_simp
  have v1: "contains_vendor (js ''KLVR Charger Pro'')" by code_simp
  have v2: "contains_vendor (js ''klvr-charger'')" by code_simp
  have v3: "contains_vendor (js ''My Klvr'')" by code_simp
  have v4: "contains_vendor ([0x212A] @ js ''LVR Charger'')" by code_simp
  have f1: "field info_with_serial ''firmwareVersion'' = Str (js ''1.8.3'')"
           "field info_with_serial ''serialNumber'' = Str (js ''SN-0042'')"
    by code_simp+
  have f2: "field info_with_mac ''firmwareVersion'' = Undefined"
           "field info_with_mac ''serialNumber'' = Undefined"
           "field (field info_with_mac ''ip'') ''macAddress'' = Str (js ''AA:BB:CC:DD:EE:FF'')"
    by code_simp+
  have f3: "field info_bare ''firmwareVersion'' = Undefined"
           "field info_bare ''serialNumber'' = Undefined"
           "field (field info_bare ''ip'') ''macAddress'' = Undefined"
    by code_simp+
  have f4: "field info_kelvin ''firmwareVersion'' = Undefined"
           "field info_kelvin ''serialNumber'' = Undefined"
           "field (field info_kelvin ''ip'') ''macAddress'' = Undefined"
    by code_simp+
  from prober_accepts_vendor_device [OF host dev parse n1 v1]
       prober_accepts_vendor_device [OF host dev parse n2 v2]
       prober_accepts_vendor_device [OF host dev parse n3 v3]
       prober_accepts_vendor_device [OF host dev parse n4 v4]
  show ?thesis
    unfolding f1 f2 f3 f4 by (simp add: js_def)
qed

section \<open>Properties of the upload and reboot requests\<close>

text \<open>
  Claim C8. For every firmware payload, the request of \<^verbatim>\<open>uploadFirmware\<close> has a
  \<^verbatim>\<open>Content-Length\<close> header that is exactly the byte length of the payload, and its body
  is the payload. When the host name is one \<^verbatim>\<open>http.request\<close> accepts, that one request
  is issued, and for every response, whatever its status, the promise resolves (it does
  not throw) with an outcome whose \<^verbatim>\<open>ok\<close> is true if and only if the status is 200.
\<close>

theorem upload_content_length_and_ok:
  "headers (upload_request deviceIp firmware isMainBoard) = [(''Content-Length'', length firmware)] \<and>
   written (upload_request deviceIp firmware isMainBoard) = Buffer firmware \<and>
   payload_length (written (upload_request deviceIp firmware isMainBoard)) = length firmware \<and>
   (accepted_host deviceIp \<longrightarrow>
      snd (uploadFirmware E deviceIp firmware isMainBoard t) =
        t @ [Call (upload_request deviceIp firmware isMainBoard)] \<and>
      (\<forall>res. device E t (upload_request deviceIp firmware isMainBoard) = Resp res \<longrightarrow>
         fst (uploadFirmware E deviceIp firmware isMainBoard t) =
           Resolved \<lparr>ok = (statusCode res = 200), status = statusCode res,
                     statusText = statusMessage res, data = body res\<rparr>))"
proof (intro conjI allI impI)
  show "headers (upload_request deviceIp firmware isMainBoard) =
          [(''Content-Length'', length firmware)]"
    by (simp add: upload_request_def)
next
  show "written (upload_request deviceIp firmware isMainBoard) = Buffer firmware"
    by (simp add: upload_request_def)
next
  show "payload_length (written (upload_request deviceIp firmware isMainBoard)) =
          length firmware"
    by (simp add: upload_request_def)
next
  assume "accepted_host deviceIp"
  then show "snd (uploadFirmware E deviceIp firmware isMainBoard t) =
          t @ [Call (upload_request deviceIp firmware isMainBoard)]"
    by (simp add: uploadFirmware_def http_request_sent request_error_upload)
next
  fix res
  assume "accepted_host deviceIp"
    and "device E t (upload_request deviceIp firmware isMainBoard) = Resp res"
  then have "uploadFirmware E deviceIp firmware isMainBoard t =
               (Resolved (outcome_of res), t @ [Call (upload_request deviceIp firmware isMainBoard)])"
    by (rule uploadFirmware_Resp)
  then show "fst (uploadFirmware E deviceIp firmware isMainBoard t) =
               Resolved \<lparr>ok = (statusCode res = 200), status = statusCode res,
                         statusText = statusMessage res, data = body res\<rparr>"
    by (simp add: outcome_of_def)
qed

theorem upload_content_length_and_ok_witness:
  "headers (upload_request (js ''10.110.73.155'') ''MAIN-IMAGE'' True) =
     [(''Content-Length'', 10)] \<and>
   fst (uploadFirmware (mock_env all_200) (js ''10.110.73.155'') ''MAIN-IMAGE'' True []) =
     Resolved \<lparr>ok = True, status = 200, statusText = ''mock'', data = ''{}''\<rparr> \<and>
   fst (uploadFirmware (mock_env main_upload_500) (js ''10.110.73.155'') ''MAIN-IMAGE'' True []) =
     Resolved \<lparr>ok = False, status = 500, statusText = ''mock'', data = ''{}''\<rparr>"
proof -
  let ?ip = "js ''10.110.73.155''"
  let ?req = "upload_request ?ip ''MAIN-IMAGE'' True"
  have host: "accepted_host ?ip" by code_simp
  have a: "device (mock_env all_200) [] ?req =
             Resp \<lparr>statusCode = 200, statusMessage = ''mock'', body = ''{}''\<rparr>"
    by (simp add: mock_env_def all_200_def)
  have b: "device (mock_env main_upload_500) [] ?req =
             Resp \<lparr>statusCode = 500, statusMessage = ''mock'', body = ''{}''\<rparr>"
    by (simp add: mock_env_def main_upload_500_def upload_request_def)
  note good = upload_content_length_and_ok [of ?ip "''MAIN-IMAGE''" True "mock_env all_200" "[]"]
  note bad =
    upload_content_length_and_ok [of ?ip "''MAIN-IMAGE''" True "mock_env main_upload_500" "[]"]
  from good have len: "headers ?req = [(''Content-Length'', length ''MAIN-IMAGE'')]" by blast
  from good host a
  have 1: "fst (uploadFirmware (mock_env all_200) ?ip ''MAIN-IMAGE'' True []) =
      Resolved \<lparr>ok = (statusCode \<lparr>statusCode = 200, statusMessage = ''mock'', body = ''{}''\<rparr> = 200),
                status = 200, statusText = ''mock'', data = ''{}''\<rparr>"
    by simp
  from bad host b
  have 2: "fst (uploadFirmware (mock_env main_upload_500) ?ip ''MAIN-IMAGE'' True []) =
      Resolved \<lparr>ok = (statusCode \<lparr>statusCode = 500, statusMessage = ''mock'', body = ''{}''\<rparr> = 200),
                status = 500, statusText = ''mock'', data = ''{}''\<rparr>"
    by simp
  from len 1 2 show ?thesis by simp
qed



text \<open>
  Claim C10. Whatever the device, the file system and the parser do, every request to the
  reboot endpoint that the orchestrator issues is the reboot request for the board "main"
  or for the board "rear": its body is one of these two names, four bytes each, and so the
  \<^verbatim>\<open>Content-Length\<close> header of 4 equals the byte length of the body written. The
  only other function of the program that talks to the device, the prober, issues its one
  info request (none when \<^verbatim>\<open>http.request\<close> does not accept the host name) and no reboot
  request.
\<close>

theorem reboot_requests_main_or_rear:
  "(\<exists>ev. snd (executeFirmwareUpdate E deviceIp mainFirmwarePath rearFirmwarePath t) = t @ ev \<and>
     (\<forall>req. Call req \<in> set ev \<and> prefix REBOOT (path req) \<longrightarrow>
        (req = reboot_request deviceIp (js ''main'') \<or>
         req = reboot_request deviceIp (js ''rear'')) \<and>
        (written req = Text (js ''main'') \<or> written req = Text (js ''rear'')) \<and>
        payload_length (written req) = 4 \<and>
        headers req = [(''Content-Length'', payload_length (written req))])) \<and>
   snd (testDeviceConnection E deviceIp t) =
     (if accepted_host deviceIp then t @ [Call (probe_request deviceIp)] else t) \<and>
   \<not> prefix REBOOT (path (probe_request deviceIp))"
proof -
  have probe: "snd (testDeviceConnection E deviceIp t) =
                 (if accepted_host deviceIp then t @ [Call (probe_request deviceIp)] else t)"
    by (simp add: testDeviceConnection_def http_request_def Let_def request_error_def
          probe_request_def INFO_def js_def invalid_path_unit_def)
  have other: "\<not> prefix REBOOT (path (probe_request deviceIp))"
    by (simp add: probe_request_def REBOOT_def INFO_def js_def)
  from emits_executeFirmwareUpdate [of deviceIp E mainFirmwarePath rearFirmwarePath]
  obtain ev
    where ev: "snd (executeFirmwareUpdate E deviceIp mainFirmwarePath rearFirmwarePath t) = t @ ev"
    and all: "list_all (update_event deviceIp) ev"
    unfolding emits_def by blast
  have "(req = reboot_request deviceIp (js ''main'') \<or>
         req = reboot_request deviceIp (js ''rear'')) \<and>
        (written req = Text (js ''main'') \<or> written req = Text (js ''rear'')) \<and>
        payload_length (written req) = 4 \<and>
        headers req = [(''Content-Length'', payload_length (written req))]"
    if "Call req \<in> set ev" and "prefix REBOOT (path req)" for req
  proof -
    from that(1) all have "update_event deviceIp (Call req)" by (simp add: list_all_iff)
    from this that(2)
    have "req = reboot_request deviceIp (js ''main'') \<or>
          req = reboot_request deviceIp (js ''rear'')"
      by (rule reboot_path_only)
    moreover have "utf8_length (js ''main'') = 4" "utf8_length (js ''rear'') = 4"
      by (simp_all add: js_def unit_bytes_def high_surrogate_def)
    ultimately show ?thesis by (auto simp: reboot_request_def)
  qed
  with ev probe other show ?thesis by blast
qed

theorem reboot_requests_main_or_rear_witness:
  "Call (reboot_request (js ''10.110.73.155'') (js ''rear'')) \<in>
     set (snd (executeFirmwareUpdate (mock_env all_200) (js ''10.110.73.155'')
                 (js ''firmware/main_v2.signed.bin'') (js ''firmware/rear_v2.signed.bin'') [])) \<and>
   prefix REBOOT (path (reboot_request (js ''10.110.73.155'') (js ''rear''))) \<and>
   headers (reboot_request (js ''10.110.73.155'') (js ''rear'')) =
     [(''Content-Length'',
       payload_length (written (reboot_request (js ''10.110.73.155'') (js ''rear''))))]"
proof -
  let ?E = "mock_env all_200"
  let ?ip = "js ''10.110.73.155''"
  let ?mainPath = "js ''firmware/main_v2.signed.bin''"
  let ?rearPath = "js ''firmware/rear_v2.signed.bin''"
  let ?run = "executeFirmwareUpdate ?E ?ip ?mainPath ?rearPath []"
  have host: "accepted_host ?ip" by code_simp
  have dev: "device ?E u req =
               Resp \<lparr>statusCode = 200, statusMessage = ''mock'', body = ''{}''\<rparr>" for u req
    by (simp add: mock_env_def all_200_def)
  have parsed: "getDeviceInfo_try (json_parse ?E) ''{}'' = Inr (Obj [])"
    by (simp add: mock_env_def mock_parse_def getDeviceInfo_try_def log_firmwareVersion_def
        and_then_def)
  have log: "log_firmwareVersion (Obj []) = Inr ()"
    by (simp add: log_firmwareVersion_def and_then_def)
  have files: "readFile ?E ?mainPath = Inr ''MAIN-IMAGE''"
              "readFile ?E ?rearPath = Inr ''REAR-IMAGE''"
    by (simp_all add: mock_env_def mock_readFile_def js_def)
  have run: "snd ?run = planned ?ip ''MAIN-IMAGE'' ''REAR-IMAGE''"
    unfolding executeFirmwareUpdate_steps
    by (simp add: final_info_def await_Resolved await_local_step await_sleep
        getDeviceInfo_Resp uploadFirmware_Resp rebootDevice_Resp request_sent host
        dev parsed log files outcome_of_def planned_def)
  then have issued: "Call (reboot_request ?ip (js ''rear'')) \<in> set (snd ?run)"
    by (simp add: planned_def)
  have reboot: "prefix REBOOT (path (reboot_request ?ip (js ''rear'')))"
    by (simp add: reboot_request_def)
  from reboot_requests_main_or_rear [of ?E ?ip ?mainPath ?rearPath "[]"]
  obtain ev where ev: "snd ?run = [] @ ev"
    and only: "\<forall>req. Call req \<in> set ev \<and> prefix REBOOT (path req) \<longrightarrow>
        (req = reboot_request ?ip (js ''main'') \<or> req = reboot_request ?ip (js ''rear'')) \<and>
        (written req = Text (js ''main'') \<or> written req = Text (js ''rear'')) \<and>
        payload_length (written req) = 4 \<and>
        headers req = [(''Content-Length'', payload_length (written req))]"
    by blast
  from issued ev have "Call (reboot_request ?ip (js ''rear'')) \<in> set ev" by simp
  with only reboot
  have "headers (reboot_request ?ip (js ''rear'')) =
          [(''Content-Length'', payload_length (written (reboot_request ?ip (js ''rear''))))]"
    by blast
  with issued reboot show ?thesis by blast
qed

end
